theory Spec2Isabelle
  imports Complex_Main
begin

section \<open>Python values and exceptions\<close>

text \<open>
  The worker (\<^verbatim>\<open>gpu_worker.py\<close>) handles JSON documents decoded by Python: the poll
  response, the settings, the job, the reply of the inference backend. A decoded document
  is a \<open>pyval\<close>. A dict is an association list in insertion order (the JSON decoder
  leaves no duplicate key). A string is a list of characters, one per code point, which
  covers the code points below 256. A float is the rational number it denotes, which
  covers the finite floats; the worker never computes with floats, it compares them, tests
  them for zero and passes them on.
\<close>

datatype pyval =
    PNone
  | PBool bool
  | PInt int
  | PFloat rat
  | PStr string
  | PList "pyval list"
  | PDict "(string \<times> pyval) list"

text \<open>
  Exception classes, as far as the handlers of the worker tell them apart:
  \<^verbatim>\<open>except (ImportError, KeyError)\<close>, \<^verbatim>\<open>except Exception\<close> and
  \<^verbatim>\<open>except KeyboardInterrupt\<close>. A class stands for itself and its subclasses
  (\<^verbatim>\<open>ZoneInfoNotFoundError\<close> is a \<open>KeyError\<close>, \<^verbatim>\<open>ModuleNotFoundError\<close> an
  \<open>ImportError\<close>, the exceptions of \<^verbatim>\<open>requests\<close> are \<open>OSError\<close>s).
  \<open>KeyboardInterrupt\<close> is the only class here that is not an \<^verbatim>\<open>Exception\<close>.

  An exception raised by one of the calls to the outside (HTTP, file system, time zone
  database) comes with its text, \<open>External c text\<close>. An exception raised by the
  interpreter on an ill-typed value is \<open>Interp c\<close>; its text differs between Python
  versions and is read from the environment where the worker uses it.
\<close>

datatype exc_class =
    KeyboardInterrupt | ImportError | KeyError | IndexError | ValueError
  | TypeError | AttributeError | OSError | OtherError

datatype pyexc = Interp exc_class | External exc_class string

fun exc_class_of :: "pyexc \<Rightarrow> exc_class" where
  "exc_class_of (Interp c) = c"
| "exc_class_of (External c m) = c"

definition is_Exception :: "pyexc \<Rightarrow> bool" where
  "is_Exception e = (exc_class_of e \<noteq> KeyboardInterrupt)"

subsection \<open>Truth value, lookup, membership\<close>

fun truthy :: "pyval \<Rightarrow> bool" where
  "truthy PNone = False"
| "truthy (PBool b) = b"
| "truthy (PInt i) = (i \<noteq> 0)"
| "truthy (PFloat q) = (q \<noteq> 0)"
| "truthy (PStr s) = (s \<noteq> [])"
| "truthy (PList xs) = (xs \<noteq> [])"
| "truthy (PDict kv) = (kv \<noteq> [])"

text \<open>\<^verbatim>\<open>d.get(k, default)\<close>: only a dict has the method.\<close>

definition dict_get :: "(string \<times> pyval) list \<Rightarrow> string \<Rightarrow> pyval \<Rightarrow> pyval" where
  "dict_get kv k dflt = (case map_of kv k of None \<Rightarrow> dflt | Some v \<Rightarrow> v)"

fun py_get :: "pyval \<Rightarrow> string \<Rightarrow> pyval \<Rightarrow> pyexc + pyval" where
  "py_get (PDict kv) k dflt = Inr (dict_get kv k dflt)"
| "py_get v k dflt = Inl (Interp AttributeError)"

text \<open>
  \<^verbatim>\<open>d[k]\<close> for a string \<open>k\<close>: a dict without the key raises \<open>KeyError\<close>, a list
  or a string wants an integer index, the other values are not subscriptable.
\<close>

fun py_getitem :: "pyval \<Rightarrow> string \<Rightarrow> pyexc + pyval" where
  "py_getitem (PDict kv) k =
     (case map_of kv k of None \<Rightarrow> Inl (Interp KeyError) | Some v \<Rightarrow> Inr v)"
| "py_getitem v k = Inl (Interp TypeError)"

text \<open>\<^verbatim>\<open>x[0]\<close>. The keys of a decoded dict are strings, so \<open>0\<close> is never one.\<close>

fun py_first :: "pyval \<Rightarrow> pyexc + pyval" where
  "py_first (PList []) = Inl (Interp IndexError)"
| "py_first (PList (x # xs)) = Inr x"
| "py_first (PStr []) = Inl (Interp IndexError)"
| "py_first (PStr (c # cs)) = Inr (PStr [c])"
| "py_first (PDict kv) = Inl (Interp KeyError)"
| "py_first v = Inl (Interp TypeError)"

text \<open>\<^verbatim>\<open>x[:8]\<close>; a dict rejects the slice (as unhashable up to Python 3.11).\<close>

fun py_slice8 :: "pyval \<Rightarrow> pyexc + pyval" where
  "py_slice8 (PStr s) = Inr (PStr (take 8 s))"
| "py_slice8 (PList xs) = Inr (PList (take 8 xs))"
| "py_slice8 v = Inl (Interp TypeError)"

text \<open>\<^verbatim>\<open>d[k] = v\<close> on a dict: an existing key keeps its place, a new one goes last.\<close>

fun dict_set :: "(string \<times> pyval) list \<Rightarrow> string \<Rightarrow> pyval \<Rightarrow> (string \<times> pyval) list" where
  "dict_set [] k v = [(k, v)]"
| "dict_set (p # ps) k v = (if fst p = k then (k, v) # ps else p # dict_set ps k v)"

fun py_setitem :: "pyval \<Rightarrow> string \<Rightarrow> pyval \<Rightarrow> pyexc + pyval" where
  "py_setitem (PDict kv) k v = Inr (PDict (dict_set kv k v))"
| "py_setitem d k v = Inl (Interp TypeError)"

text \<open>Iteration (\<^verbatim>\<open>for x in v\<close>): a string yields its characters, a dict its keys.\<close>

fun py_iter :: "pyval \<Rightarrow> pyexc + pyval list" where
  "py_iter (PList xs) = Inr xs"
| "py_iter (PStr s) = Inr (map (\<lambda>c. PStr [c]) s)"
| "py_iter (PDict kv) = Inr (map (\<lambda>p. PStr (fst p)) kv)"
| "py_iter v = Inl (Interp TypeError)"

subsection \<open>Equality and order\<close>

fun num_of :: "pyval \<Rightarrow> rat option" where
  "num_of (PBool b) = Some (if b then 1 else 0)"
| "num_of (PInt i) = Some (of_int i)"
| "num_of (PFloat q) = Some q"
| "num_of v = None"

text \<open>Strings are ordered by code point, lexicographically.\<close>

fun str_le :: "string \<Rightarrow> string \<Rightarrow> bool" where
  "str_le [] t = True"
| "str_le (a # s) [] = False"
| "str_le (a # s) (b # t) = ((of_char a :: nat) < of_char b \<or> (a = b \<and> str_le s t))"

text \<open>
  \<^verbatim>\<open>==\<close> never raises on decoded values: numbers (booleans included) are equal by
  value, lists element by element, dicts when they have the same keys with equal values.
\<close>

fun py_eq :: "pyval \<Rightarrow> pyval \<Rightarrow> bool"
and py_eq_list :: "pyval list \<Rightarrow> pyval list \<Rightarrow> bool"
and py_eq_items :: "(string \<times> pyval) list \<Rightarrow> (string \<times> pyval) list \<Rightarrow> bool" where
  "py_eq (PList xs) (PList ys) = py_eq_list xs ys"
| "py_eq (PDict a) (PDict b) = (length a = length b \<and> py_eq_items a b)"
| "py_eq (PStr s) (PStr t) = (s = t)"
| "py_eq PNone PNone = True"
| "py_eq a b = (case (num_of a, num_of b) of (Some x, Some y) \<Rightarrow> x = y | _ \<Rightarrow> False)"
| "py_eq_list [] [] = True"
| "py_eq_list (x # xs) (y # ys) = (py_eq x y \<and> py_eq_list xs ys)"
| "py_eq_list xs ys = False"
| "py_eq_items [] b = True"
| "py_eq_items ((k, v) # r) b =
     (case map_of b k of None \<Rightarrow> False | Some w \<Rightarrow> py_eq v w \<and> py_eq_items r b)"

text \<open>
  \<^verbatim>\<open>a > b\<close> and \<^verbatim>\<open>a <= b\<close>: numbers with numbers, strings with strings, lists with
  lists (decided at the first unequal pair of elements, else by length); every other
  pair raises \<open>TypeError\<close>.
\<close>

datatype cmpop = Gt | Le

fun py_compare :: "cmpop \<Rightarrow> pyval \<Rightarrow> pyval \<Rightarrow> pyexc + bool"
and py_compare_list :: "cmpop \<Rightarrow> pyval list \<Rightarrow> pyval list \<Rightarrow> pyexc + bool" where
  "py_compare opr (PStr s) (PStr t) =
     Inr (case opr of Gt \<Rightarrow> \<not> str_le s t | Le \<Rightarrow> str_le s t)"
| "py_compare opr (PList xs) (PList ys) = py_compare_list opr xs ys"
| "py_compare opr a b =
     (case (num_of a, num_of b) of
        (Some x, Some y) \<Rightarrow> Inr (case opr of Gt \<Rightarrow> y < x | Le \<Rightarrow> x \<le> y)
      | _ \<Rightarrow> Inl (Interp TypeError))"
| "py_compare_list opr (x # xs) (y # ys) =
     (if py_eq x y then py_compare_list opr xs ys else py_compare opr x y)"
| "py_compare_list opr xs ys =
     Inr (case opr of Gt \<Rightarrow> length ys < length xs | Le \<Rightarrow> length xs \<le> length ys)"

text \<open>
  \<^verbatim>\<open>s in v\<close> for a string \<open>s\<close>: a key of a dict, an element of a list, a substring
  of a string.
\<close>

fun is_substring :: "string \<Rightarrow> string \<Rightarrow> bool" where
  "is_substring s [] = (s = [])"
| "is_substring s (c # cs) = (take (length s) (c # cs) = s \<or> is_substring s cs)"

fun py_in :: "string \<Rightarrow> pyval \<Rightarrow> pyexc + bool" where
  "py_in s (PDict kv) = Inr (s \<in> set (map fst kv))"
| "py_in s (PList xs) = Inr (list_ex (py_eq (PStr s)) xs)"
| "py_in s (PStr t) = Inr (is_substring s t)"
| "py_in s v = Inl (Interp TypeError)"

subsection \<open>Text of values\<close>

text \<open>\<^verbatim>\<open>str(n)\<close> of an integer: decimal digits, a minus sign when negative.\<close>

fun show_nat :: "nat \<Rightarrow> string" where
  "show_nat n =
     (if n < 10 then [char_of (48 + n)] else show_nat (n div 10) @ [char_of (48 + n mod 10)])"

declare show_nat.simps [simp del]

definition show_int :: "int \<Rightarrow> string" where
  "show_int i = (if i < 0 then CHR ''-'' # show_nat (nat (- i)) else show_nat (nat i))"


section \<open>The environment of one loop iteration\<close>

text \<open>
  Everything the worker obtains from outside in one iteration of its loop: the outcome of
  each HTTP call, of writing the settings file, of looking the time zone up, the clock,
  and whether the process is interrupted while it sleeps.
\<close>

datatype tzinfo = TZ string

text \<open>
  An HTTP call raises, or returns a response: its status code and what \<^verbatim>\<open>resp.json()\<close>
  gives for its body (the decoded document, or the exception of an undecodable body).
\<close>

datatype http_outcome = Raises pyexc | Response int "pyexc + pyval"

record env =
  interp_text :: string
    \<comment> \<open>\<^verbatim>\<open>str(e)\<close> of the exception the interpreter raises inside \<^verbatim>\<open>run_sdxl\<close>\<close>
  py_repr :: "pyval \<Rightarrow> string"
    \<comment> \<open>the text of a float, a list or a dict inside an f-string\<close>
  zoneinfo_import :: "pyexc option"
    \<comment> \<open>\<^verbatim>\<open>from zoneinfo import ZoneInfo\<close>: the exception it raises, if any\<close>
  zoneinfo_lookup :: "pyval \<Rightarrow> pyexc + tzinfo"
    \<comment> \<open>\<^verbatim>\<open>ZoneInfo(key)\<close>\<close>
  now_weekday :: "tzinfo \<Rightarrow> string"
    \<comment> \<open>\<^verbatim>\<open>datetime.now(tz).strftime('%a')\<close>\<close>
  now_hhmm :: "tzinfo \<Rightarrow> string"
    \<comment> \<open>\<^verbatim>\<open>datetime.now(tz).strftime('%H:%M')\<close>\<close>
  poll_response :: http_outcome
    \<comment> \<open>\<^verbatim>\<open>requests.get\<close> on the poll endpoint\<close>
  save_outcome :: "pyexc option"
    \<comment> \<open>\<^verbatim>\<open>save_settings\<close>: the exception of the directory or file operation, if any\<close>
  backend_response :: http_outcome
    \<comment> \<open>\<^verbatim>\<open>requests.post\<close> on the local inference backend\<close>
  elapsed_time :: rat
    \<comment> \<open>\<^verbatim>\<open>time.time() - start\<close> in \<^verbatim>\<open>process_job\<close>\<close>
  complete_response :: http_outcome
    \<comment> \<open>\<^verbatim>\<open>requests.post\<close> on the completion endpoint\<close>
  sleep_interrupt :: bool
    \<comment> \<open>the \<^verbatim>\<open>time.sleep\<close> of this iteration is cut short by \<open>KeyboardInterrupt\<close>\<close>

definition exc_str :: "env \<Rightarrow> pyexc \<Rightarrow> string" where
  "exc_str en e = (case e of Interp c \<Rightarrow> interp_text en | External c m \<Rightarrow> m)"

fun py_str :: "env \<Rightarrow> pyval \<Rightarrow> string" where
  "py_str en (PStr s) = s"
| "py_str en (PInt i) = show_int i"
| "py_str en (PBool b) = (if b then ''True'' else ''False'')"
| "py_str en PNone = ''None''"
| "py_str en v = py_repr en v"

text \<open>What the worker does to the outside, in order.\<close>

datatype logmsg =
    LogProcessing pyval pyval
  | LogJobFailed pyval
  | LogJobCompleted rat
  | LogInvalidKey
  | LogSynced pyval
  | LogShuttingDown
  | LogError pyexc

datatype event =
    EvLog logmsg
  | EvSleep nat
  | EvPoll
  | EvSave pyval
  | EvBackendPost pyval
  | EvComplete pyval pyval

definition POLL_INTERVAL :: nat where
  "POLL_INTERVAL = 5"

section \<open>The schedule gate\<close>

text \<open>\<^verbatim>\<open>str.lower\<close> on the code points below 256.\<close>

definition lower_char :: "char \<Rightarrow> char" where
  "lower_char c =
     (let n = (of_char c :: nat)
      in if (65 \<le> n \<and> n \<le> 90) \<or> (192 \<le> n \<and> n \<le> 222 \<and> n \<noteq> 215)
         then char_of (n + 32) else c)"

definition current_day :: "env \<Rightarrow> tzinfo \<Rightarrow> string" where
  "current_day en tz = take 3 (map lower_char (now_weekday en tz))"

definition current_time :: "env \<Rightarrow> tzinfo \<Rightarrow> string" where
  "current_time en tz = now_hhmm en tz"

text \<open>
  The body of the \<^verbatim>\<open>try\<close> in \<^verbatim>\<open>is_within_schedule\<close>: the import, then
  \<^verbatim>\<open>ZoneInfo(schedule.get('timezone', 'UTC'))\<close>.
\<close>

definition resolve_tz :: "env \<Rightarrow> pyval \<Rightarrow> pyexc + tzinfo" where
  "resolve_tz en schedule =
     (case zoneinfo_import en of
        Some e \<Rightarrow> Inl e
      | None \<Rightarrow>
          (case py_get schedule ''timezone'' (PStr ''UTC'') of
             Inl e \<Rightarrow> Inl e
           | Inr key \<Rightarrow> zoneinfo_lookup en key))"

text \<open>
  The loop over the rules. The chained comparison evaluates \<^verbatim>\<open>end_time\<close> only after
  \<^verbatim>\<open>start_time <= current_time\<close> held.
\<close>

fun match_rules :: "string \<Rightarrow> string \<Rightarrow> pyval list \<Rightarrow> pyexc + bool" where
  "match_rules d t [] = Inr False"
| "match_rules d t (rule # rules) =
     (case py_get rule ''days'' (PList []) of
        Inl e \<Rightarrow> Inl e
      | Inr days \<Rightarrow>
          (case py_in d days of
             Inl e \<Rightarrow> Inl e
           | Inr False \<Rightarrow> match_rules d t rules
           | Inr True \<Rightarrow>
               (case py_get rule ''start_time'' (PStr ''00:00'') of
                  Inl e \<Rightarrow> Inl e
                | Inr start \<Rightarrow>
                    (case py_compare Le start (PStr t) of
                       Inl e \<Rightarrow> Inl e
                     | Inr False \<Rightarrow> match_rules d t rules
                     | Inr True \<Rightarrow>
                         (case py_get rule ''end_time'' (PStr ''23:59'') of
                            Inl e \<Rightarrow> Inl e
                          | Inr stop \<Rightarrow>
                              (case py_compare Le (PStr t) stop of
                                 Inl e \<Rightarrow> Inl e
                               | Inr False \<Rightarrow> match_rules d t rules
                               | Inr True \<Rightarrow> Inr True))))))"

definition is_within_schedule :: "env \<Rightarrow> pyval \<Rightarrow> pyexc + bool" where
  "is_within_schedule en schedule =
     (if \<not> truthy schedule then Inr True
      else
        (case py_get schedule ''enabled'' PNone of
           Inl e \<Rightarrow> Inl e
         | Inr enabled \<Rightarrow>
             if \<not> truthy enabled then Inr True
             else
               (case resolve_tz en schedule of
                  Inl e \<Rightarrow>
                    if exc_class_of e = ImportError \<or> exc_class_of e = KeyError
                    then Inr True else Inl e
                | Inr tz \<Rightarrow>
                    (case py_get schedule ''rules'' (PList []) of
                       Inl e \<Rightarrow> Inl e
                     | Inr rules \<Rightarrow>
                         (case py_iter rules of
                            Inl e \<Rightarrow> Inl e
                          | Inr rs \<Rightarrow>
                              match_rules (current_day en tz) (current_time en tz) rs)))))"

section \<open>The inference client\<close>

text \<open>
  The JSON body of the request to the backend. Each field is a \<^verbatim>\<open>params.get\<close>
  with its default; the first of them raises \<open>AttributeError\<close> when \<open>params\<close> is
  not a dict, and none raises when it is.
\<close>

fun sdxl_request :: "pyval \<Rightarrow> pyexc + pyval" where
  "sdxl_request (PDict kv) =
     Inr (PDict
       [(''prompt'', dict_get kv ''prompt'' (PStr '''')),
        (''negative_prompt'', dict_get kv ''negative_prompt'' (PStr '''')),
        (''width'', dict_get kv ''width'' (PInt 1024)),
        (''height'', dict_get kv ''height'' (PInt 1024)),
        (''steps'', dict_get kv ''steps'' (PInt 20)),
        (''cfg_scale'', dict_get kv ''cfg_scale'' (PFloat 7)),
        (''seed'', dict_get kv ''seed'' (PInt (- 1))),
        (''sample_method'', PStr ''euler_a'')])"
| "sdxl_request v = Inl (Interp AttributeError)"

text \<open>\<^verbatim>\<open>'images' in r and r['images']\<close>, as a truth value.\<close>

definition has_images :: "pyval \<Rightarrow> pyexc + bool" where
  "has_images r =
     (case py_in ''images'' r of
        Inl e \<Rightarrow> Inl e
      | Inr False \<Rightarrow> Inr False
      | Inr True \<Rightarrow>
          (case py_getitem r ''images'' of Inl e \<Rightarrow> Inl e | Inr v \<Rightarrow> Inr (truthy v)))"

text \<open>
  The mapping of a decoded 200 body: the \<^verbatim>\<open>if\<close>/\<^verbatim>\<open>elif\<close> of \<^verbatim>\<open>run_sdxl\<close> and
  its final \<^verbatim>\<open>return\<close>. In a dict display the image is evaluated before the seed.
\<close>

definition sdxl_result :: "pyval \<Rightarrow> pyexc + pyval" where
  "sdxl_result r =
     (case has_images r of
        Inl e \<Rightarrow> Inl e
      | Inr True \<Rightarrow>
          (case py_getitem r ''images'' of
             Inl e \<Rightarrow> Inl e
           | Inr images \<Rightarrow>
               (case py_first images of
                  Inl e \<Rightarrow> Inl e
                | Inr img \<Rightarrow>
                    (case py_get r ''seed'' (PInt (- 1)) of
                       Inl e \<Rightarrow> Inl e
                     | Inr seed \<Rightarrow> Inr (PDict [(''image'', img), (''seed'', seed)]))))
      | Inr False \<Rightarrow>
          (case py_in ''image'' r of
             Inl e \<Rightarrow> Inl e
           | Inr True \<Rightarrow>
               (case py_getitem r ''image'' of
                  Inl e \<Rightarrow> Inl e
                | Inr img \<Rightarrow>
                    (case py_get r ''seed'' (PInt (- 1)) of
                       Inl e \<Rightarrow> Inl e
                     | Inr seed \<Rightarrow> Inr (PDict [(''image'', img), (''seed'', seed)])))
           | Inr False \<Rightarrow> Inr (PDict [(''error'', PStr ''No image'')])))"

text \<open>The body of the \<^verbatim>\<open>try\<close> in \<^verbatim>\<open>run_sdxl\<close>, with the calls it makes.\<close>

definition run_sdxl_try :: "env \<Rightarrow> pyval \<Rightarrow> event list \<times> (pyexc + pyval)" where
  "run_sdxl_try en params =
     (case sdxl_request params of
        Inl e \<Rightarrow> ([], Inl e)
      | Inr req \<Rightarrow>
          (case backend_response en of
             Raises e \<Rightarrow> ([EvBackendPost req], Inl e)
           | Response code body \<Rightarrow>
               ([EvBackendPost req],
                if code \<noteq> 200
                then Inr (PDict [(''error'', PStr (''Server error '' @ show_int code))])
                else (case body of Inl e \<Rightarrow> Inl e | Inr r \<Rightarrow> sdxl_result r))))"

text \<open>
  \<^verbatim>\<open>run_sdxl\<close>: \<^verbatim>\<open>except Exception as e\<close> turns every exception that is an
  \<^verbatim>\<open>Exception\<close> into an error result; a \<open>KeyboardInterrupt\<close> passes through.
\<close>

definition run_sdxl :: "env \<Rightarrow> pyval \<Rightarrow> event list \<times> (pyexc + pyval)" where
  "run_sdxl en params =
     (case run_sdxl_try en params of
        (evs, Inr result) \<Rightarrow> (evs, Inr result)
      | (evs, Inl e) \<Rightarrow>
          if is_Exception e then (evs, Inr (PDict [(''error'', PStr (exc_str en e))]))
          else (evs, Inl e))"

section \<open>Processing a job\<close>

text \<open>
  \<^verbatim>\<open>process_job\<close>. The log line reads \<^verbatim>\<open>job['id'][:8]\<close> before the service is
  checked, so a job without an id raises before anything else happens.
\<close>

definition process_job :: "env \<Rightarrow> pyval \<Rightarrow> event list \<times> (pyexc + pyval)" where
  "process_job en job =
     (case py_get job ''service'' (PStr ''sdxl'') of
        Inl e \<Rightarrow> ([], Inl e)
      | Inr service \<Rightarrow>
     (case py_get job ''params'' (PDict []) of
        Inl e \<Rightarrow> ([], Inl e)
      | Inr params \<Rightarrow>
     (case py_getitem job ''id'' of
        Inl e \<Rightarrow> ([], Inl e)
      | Inr job_id \<Rightarrow>
     (case py_slice8 job_id of
        Inl e \<Rightarrow> ([], Inl e)
      | Inr short_id \<Rightarrow>
          if \<not> py_eq service (PStr ''sdxl'')
          then ([EvLog (LogProcessing service short_id)],
                Inr (PDict [(''error'', PStr (''Unsupported service: '' @ py_str en service))]))
          else
            (case run_sdxl en params of
               (evs, Inl e) \<Rightarrow> (EvLog (LogProcessing service short_id) # evs, Inl e)
             | (evs, Inr result) \<Rightarrow>
                 (case py_in ''error'' result of
                    Inl e \<Rightarrow> (EvLog (LogProcessing service short_id) # evs, Inl e)
                  | Inr True \<Rightarrow>
                      (case py_getitem result ''error'' of
                         Inl e \<Rightarrow> (EvLog (LogProcessing service short_id) # evs, Inl e)
                       | Inr msg \<Rightarrow>
                           (EvLog (LogProcessing service short_id) # evs @ [EvLog (LogJobFailed msg)],
                            Inr (PDict [(''error'', msg)])))
                  | Inr False \<Rightarrow>
                      (case py_setitem result ''inference_time'' (PFloat (elapsed_time en)) of
                         Inl e \<Rightarrow> (EvLog (LogProcessing service short_id) # evs, Inl e)
                       | Inr timed \<Rightarrow>
                           (EvLog (LogProcessing service short_id) # evs
                              @ [EvLog (LogJobCompleted (elapsed_time en))],
                            Inr (PDict [(''result'', timed)])))))))))"

section \<open>The worker loop\<close>

text \<open>
  The variables of \<^verbatim>\<open>worker_loop\<close> that change from one iteration to the next.
  \<open>errors\<close> starts at 0 and is only incremented or reset, so it is a natural number.
\<close>

record wstate =
  settings :: pyval
  settings_version :: pyval
  errors :: nat

text \<open>
  The state the loop starts from, given what \<^verbatim>\<open>load_settings()\<close> returned
  (\<open>PNone\<close> when there is no readable settings file).
\<close>

definition initial_state :: "pyval \<Rightarrow> pyexc + wstate" where
  "initial_state loaded =
     (if truthy loaded
      then (case py_get loaded ''settings_version'' (PInt 0) of
              Inl e \<Rightarrow> Inl e
            | Inr v \<Rightarrow> Inr \<lparr>settings = loaded, settings_version = v, errors = 0\<rparr>)
      else Inr \<lparr>settings = loaded, settings_version = PInt 0, errors = 0\<rparr>)"

text \<open>How a block of the loop body ends: it falls through, returns, or raises.\<close>

datatype signal = Normal | Return | Raise pyexc

definition sleep_signal :: "env \<Rightarrow> signal" where
  "sleep_signal en =
     (if sleep_interrupt en then Raise (External KeyboardInterrupt []) else Normal)"

text \<open>
  \<^verbatim>\<open>settings and not is_within_schedule(settings.get('schedule', {}))\<close>: whether the
  gate makes this iteration skip the poll.
\<close>

definition gate_closed :: "env \<Rightarrow> wstate \<Rightarrow> pyexc + bool" where
  "gate_closed en st =
     (if \<not> truthy (settings st) then Inr False
      else
        (case py_get (settings st) ''schedule'' (PDict []) of
           Inl e \<Rightarrow> Inl e
         | Inr schedule \<Rightarrow>
             (case is_within_schedule en schedule of
                Inl e \<Rightarrow> Inl e
              | Inr open_now \<Rightarrow> Inr (\<not> open_now))))"

text \<open>
  The block under \<^verbatim>\<open># Sync settings\<close>. It returns the calls made, the state it leaves
  and the exception that ended it, if any. \<^verbatim>\<open>settings\<close> is assigned before it is
  tested, so the assignment stays when the test fails or the save raises.
\<close>

definition sync_settings :: "env \<Rightarrow> wstate \<Rightarrow> pyval \<Rightarrow> event list \<times> wstate \<times> pyexc option" where
  "sync_settings en st data =
     (case py_get data ''config_sync'' PNone of
        Inl e \<Rightarrow> ([], st, Some e)
      | Inr config_sync \<Rightarrow>
          if \<not> truthy config_sync then ([], st, None)
          else
            (case py_get config_sync ''settings_version'' (PInt 0) of
               Inl e \<Rightarrow> ([], st, Some e)
             | Inr new_ver \<Rightarrow>
                 (case py_compare Gt new_ver (settings_version st) of
                    Inl e \<Rightarrow> ([], st, Some e)
                  | Inr False \<Rightarrow> ([], st, None)
                  | Inr True \<Rightarrow>
                      (case py_get config_sync ''settings'' PNone of
                         Inl e \<Rightarrow> ([], st, Some e)
                       | Inr s \<Rightarrow>
                           if \<not> truthy s then ([], st\<lparr>settings := s\<rparr>, None)
                           else
                             (case save_outcome en of
                                Some e \<Rightarrow> ([EvSave s], st\<lparr>settings := s\<rparr>, Some e)
                              | None \<Rightarrow>
                                  ([EvSave s, EvLog (LogSynced new_ver)],
                                   st\<lparr>settings := s, settings_version := new_ver\<rparr>,
                                   None))))))"

text \<open>
  The rest of the \<^verbatim>\<open>try\<close> body once the poll response is decoded: the settings
  sync, then the job (processed and reported) or the idle sleep.
\<close>

definition after_poll :: "env \<Rightarrow> wstate \<Rightarrow> pyval \<Rightarrow> event list \<times> wstate \<times> signal" where
  "after_poll en st data =
     (case sync_settings en st data of
        (evs1, st1, Some e) \<Rightarrow> (evs1, st1, Raise e)
      | (evs1, st1, None) \<Rightarrow>
          (case py_get data ''job'' PNone of
             Inl e \<Rightarrow> (evs1, st1, Raise e)
           | Inr job \<Rightarrow>
               if truthy job
               then
                 (case process_job en job of
                    (evs2, Inl e) \<Rightarrow> (evs1 @ evs2, st1\<lparr>errors := 0\<rparr>, Raise e)
                  | (evs2, Inr result) \<Rightarrow>
                      (case py_getitem job ''id'' of
                         Inl e \<Rightarrow> (evs1 @ evs2, st1\<lparr>errors := 0\<rparr>, Raise e)
                       | Inr job_id \<Rightarrow>
                           (evs1 @ evs2 @ [EvComplete job_id result], st1\<lparr>errors := 0\<rparr>,
                            (case complete_response en of
                               Raises e \<Rightarrow> Raise e
                             | Response code body \<Rightarrow> Normal))))
               else (evs1 @ [EvSleep POLL_INTERVAL], st1\<lparr>errors := 0\<rparr>, sleep_signal en)))"

text \<open>The body of the \<^verbatim>\<open>try\<close> of one iteration.\<close>

definition try_body :: "env \<Rightarrow> wstate \<Rightarrow> event list \<times> wstate \<times> signal" where
  "try_body en st =
     (case gate_closed en st of
        Inl e \<Rightarrow> ([], st, Raise e)
      | Inr True \<Rightarrow> ([EvSleep POLL_INTERVAL], st, sleep_signal en)
      | Inr False \<Rightarrow>
          (case poll_response en of
             Raises e \<Rightarrow> ([EvPoll], st, Raise e)
           | Response code body \<Rightarrow>
               if code = 401 then ([EvPoll, EvLog LogInvalidKey], st, Return)
               else if code \<noteq> 200
               then ([EvPoll, EvSleep (min (POLL_INTERVAL * (errors st + 1)) 60)],
                     st\<lparr>errors := errors st + 1\<rparr>, sleep_signal en)
               else
                 (case body of
                    Inl e \<Rightarrow> ([EvPoll], st, Raise e)
                  | Inr data \<Rightarrow>
                      (case after_poll en st data of
                         (evs, st', sg) \<Rightarrow> (EvPoll # evs, st', sg)))))"

text \<open>
  How an iteration leaves the loop: it goes on with a new state, the function has stopped
  (the \<^verbatim>\<open>return\<close> on 401 or the \<^verbatim>\<open>break\<close> on \<open>KeyboardInterrupt\<close>), or an exception
  escapes \<^verbatim>\<open>worker_loop\<close> (an interrupt during the sleep of the handler).
\<close>

datatype outcome = Continue wstate | Stopped | Escaped pyexc

definition iteration :: "env \<Rightarrow> wstate \<Rightarrow> event list \<times> outcome" where
  "iteration en st =
     (case try_body en st of
        (evs, st', Normal) \<Rightarrow> (evs, Continue st')
      | (evs, st', Return) \<Rightarrow> (evs, Stopped)
      | (evs, st', Raise e) \<Rightarrow>
          if exc_class_of e = KeyboardInterrupt
          then (evs @ [EvLog LogShuttingDown], Stopped)
          else
            (evs @ [EvLog (LogError e), EvSleep (min (POLL_INTERVAL * (errors st' + 1)) 60)],
             if sleep_interrupt en then Escaped (External KeyboardInterrupt [])
             else Continue (st'\<lparr>errors := errors st' + 1\<rparr>)))"

text \<open>
  \<^verbatim>\<open>while True\<close>, run against the environments of its first iterations: the calls
  made and where the loop stands after them.
\<close>

fun worker_loop :: "env list \<Rightarrow> wstate \<Rightarrow> event list \<times> outcome" where
  "worker_loop [] st = ([], Continue st)"
| "worker_loop (en # ens) st =
     (case iteration en st of
        (evs, Continue st') \<Rightarrow>
          (case worker_loop ens st' of (evs', out) \<Rightarrow> (evs @ evs', out))
      | (evs, out) \<Rightarrow> (evs, out))"

section \<open>The data model of the specification\<close>

text \<open>
  A schedule rule as the specification describes it: a dict whose \<^verbatim>\<open>days\<close>, when
  present, is a list, and whose \<^verbatim>\<open>start_time\<close> and \<^verbatim>\<open>end_time\<close>, when present, are
  strings.
\<close>

fun is_str :: "pyval \<Rightarrow> bool" where
  "is_str (PStr s) = True"
| "is_str v = False"

fun is_list :: "pyval \<Rightarrow> bool" where
  "is_list (PList xs) = True"
| "is_list v = False"

fun is_dict :: "pyval \<Rightarrow> bool" where
  "is_dict (PDict kv) = True"
| "is_dict v = False"

fun the_str :: "pyval \<Rightarrow> string" where
  "the_str (PStr s) = s"
| "the_str v = []"

fun the_list :: "pyval \<Rightarrow> pyval list" where
  "the_list (PList xs) = xs"
| "the_list v = []"

fun wf_rule :: "pyval \<Rightarrow> bool" where
  "wf_rule (PDict kv) =
     (is_list (dict_get kv ''days'' (PList [])) \<and>
      is_str (dict_get kv ''start_time'' (PStr ''00:00'')) \<and>
      is_str (dict_get kv ''end_time'' (PStr ''23:59'')))"
| "wf_rule v = False"

text \<open>
  The specification's condition on one rule, in its words: the day set contains the
  current weekday and the current time lies in the window from \<^verbatim>\<open>start_time\<close> to
  \<^verbatim>\<open>end_time\<close>, both ends included, strings compared lexicographically.
\<close>

fun rule_permits :: "string \<Rightarrow> string \<Rightarrow> pyval \<Rightarrow> bool" where
  "rule_permits d t (PDict kv) =
     (PStr d \<in> set (the_list (dict_get kv ''days'' (PList []))) \<and>
      str_le (the_str (dict_get kv ''start_time'' (PStr ''00:00''))) t \<and>
      str_le t (the_str (dict_get kv ''end_time'' (PStr ''23:59''))))"
| "rule_permits d t v = False"

text \<open>
  An HTTP call that is not interrupted: whatever it raises is an \<^verbatim>\<open>Exception\<close>.
\<close>

fun raises_only_Exception :: "http_outcome \<Rightarrow> bool" where
  "raises_only_Exception (Raises e) = is_Exception e"
| "raises_only_Exception (Response code (Inl e)) = is_Exception e"
| "raises_only_Exception (Response code (Inr v)) = True"

text \<open>A field of a job result is populated when the result is a dict with that key.\<close>

fun populated :: "string \<Rightarrow> pyval \<Rightarrow> bool" where
  "populated k (PDict kv) = (k \<in> set (map fst kv))"
| "populated k v = False"

text \<open>The calls to the inference backend among the events.\<close>

fun is_backend_post :: "event \<Rightarrow> bool" where
  "is_backend_post (EvBackendPost req) = True"
| "is_backend_post ev = False"

text \<open>The calls to the completion endpoint among the events.\<close>

fun is_complete :: "event \<Rightarrow> bool" where
  "is_complete (EvComplete job_id result) = True"
| "is_complete ev = False"

text \<open>
  A transient poll failure: the request raises, or it answers with a status that is
  neither 200 nor 401, or it answers 200 with a body that does not decode. An iteration
  fails in this way when the gate lets it poll, the poll fails so, and the sleep that
  follows is not interrupted.
\<close>

fun poll_fails :: "http_outcome \<Rightarrow> bool" where
  "poll_fails (Raises e) = is_Exception e"
| "poll_fails (Response code (Inl e)) = (code \<noteq> 401 \<and> is_Exception e)"
| "poll_fails (Response code (Inr data)) = (code \<noteq> 401 \<and> code \<noteq> 200)"

definition transient_failure :: "wstate \<Rightarrow> env \<Rightarrow> bool" where
  "transient_failure st en =
     (gate_closed en st = Inr False \<and> poll_fails (poll_response en) \<and> \<not> sleep_interrupt en)"

section \<open>Sample inputs\<close>

text \<open>
  An environment in which nothing fails: it is Monday noon in UTC, the poll answers 200
  with an empty object, the backend answers with one image and the seed 42. Its time zone
  database knows \<^verbatim>\<open>UTC\<close> only. Of the keys \<^verbatim>\<open>zoneinfo\<close> rejects with
  \<open>ValueError\<close> as not being normalised relative paths it has the empty string
  and the absolute paths; every other key is taken as unknown and raises
  \<^verbatim>\<open>ZoneInfoNotFoundError\<close> (a \<open>KeyError\<close>), also the remaining malformed ones
  such as \<^verbatim>\<open>../UTC\<close>.
\<close>

definition sample_env :: env where
  "sample_env =
     \<lparr>interp_text = ''interpreter error'',
      py_repr = (\<lambda>v. ''<value>''),
      zoneinfo_import = None,
      zoneinfo_lookup =
        (\<lambda>key. case key of
            PStr s \<Rightarrow>
              if s = ''UTC'' then Inr (TZ s)
              else if s = []
              then Inl (External ValueError
                         ''ZoneInfo keys must be normalized relative paths, got: '')
              else if take 1 s = ''/''
              then Inl (External ValueError
                         (''ZoneInfo keys may not be absolute paths, got: '' @ s))
              else Inl (External KeyError s)
          | _ \<Rightarrow> Inl (Interp TypeError)),
      now_weekday = (\<lambda>tz. ''Mon''),
      now_hhmm = (\<lambda>tz. ''12:00''),
      poll_response = Response 200 (Inr (PDict [])),
      save_outcome = None,
      backend_response =
        Response 200 (Inr (PDict [(''images'', PList [PStr ''abc'']), (''seed'', PInt 42)])),
      elapsed_time = 3 / 2,
      complete_response = Response 200 (Inr (PDict [])),
      sleep_interrupt = False\<rparr>"

definition sample_schedule :: pyval where
  "sample_schedule =
     PDict [(''enabled'', PBool True), (''timezone'', PStr ''UTC''),
            (''rules'', PList [PDict [(''days'', PList [PStr ''mon'']),
                                     (''start_time'', PStr ''09:00''),
                                     (''end_time'', PStr ''17:00'')]])]"

text \<open>
  An environment with two time zones whose clocks differ: it is Monday 20:00 in
  \<^verbatim>\<open>UTC\<close>, which is Tuesday 05:00 in \<^verbatim>\<open>Asia/Tokyo\<close>. Then a schedule with one
  rule, given its time zone, day and window.
\<close>

definition two_zone_env :: env where
  "two_zone_env =
     sample_env
       \<lparr>zoneinfo_lookup :=
          (\<lambda>key. if key = PStr ''Asia/Tokyo'' then Inr (TZ ''Asia/Tokyo'')
                 else zoneinfo_lookup sample_env key),
        now_weekday := (\<lambda>tz. if tz = TZ ''Asia/Tokyo'' then ''Tue'' else ''Mon''),
        now_hhmm := (\<lambda>tz. if tz = TZ ''Asia/Tokyo'' then ''05:00'' else ''20:00'')\<rparr>"

definition zone_rules :: "string \<Rightarrow> string \<Rightarrow> string \<Rightarrow> pyval list" where
  "zone_rules d a b =
     [PDict [(''days'', PList [PStr d]), (''start_time'', PStr a), (''end_time'', PStr b)]]"

definition zone_schedule :: "string \<Rightarrow> string \<Rightarrow> string \<Rightarrow> string \<Rightarrow> pyval" where
  "zone_schedule z d a b =
     PDict [(''enabled'', PBool True), (''timezone'', PStr z),
            (''rules'', PList (zone_rules d a b))]"

text \<open>A job that names no service.\<close>

definition sample_job :: pyval where
  "sample_job =
     PDict [(''id'', PStr ''0123456789abcdef''),
            (''params'', PDict [(''prompt'', PStr ''a cat'')])]"

text \<open>
  The state the loop starts from without a settings file, and environments in which the
  poll fails, delivers \<open>sample_job\<close>, or delivers settings of version 2.
\<close>

definition idle_state :: wstate where
  "idle_state = \<lparr>settings = PNone, settings_version = PInt 0, errors = 0\<rparr>"

definition poll_503 :: env where
  "poll_503 = sample_env\<lparr>poll_response := Response 503 (Inl (External ValueError ''no JSON''))\<rparr>"

definition poll_down :: env where
  "poll_down = sample_env\<lparr>poll_response := Raises (External OSError ''Connection refused'')\<rparr>"

definition poll_job :: env where
  "poll_job = sample_env\<lparr>poll_response := Response 200 (Inr (PDict [(''job'', sample_job)]))\<rparr>"

definition poll_sync :: env where
  "poll_sync =
     sample_env\<lparr>poll_response :=
       Response 200 (Inr (PDict [(''config_sync'',
         PDict [(''settings_version'', PInt 2),
                (''settings'', PDict [(''settings_version'', PInt 2)])])]))\<rparr>"

section \<open>Facts about the Python operations\<close>

lemma py_eq_PStr: "py_eq (PStr s) x = (x = PStr s)"
  by (cases x) auto

lemma py_eq_PStr2: "py_eq x (PStr s) = (x = PStr s)"
  by (cases x) auto

lemma list_ex_py_eq: "list_ex (py_eq (PStr s)) xs = (PStr s \<in> set xs)"
  by (induction xs) (auto simp: py_eq_PStr)

lemma py_in_dict: "py_in s (PDict kv) = Inr (map_of kv s \<noteq> None)"
  by (simp add: map_of_eq_None_iff)

lemma py_in_exc: "py_in s v = Inl e \<Longrightarrow> is_Exception e"
  by (cases v) (auto simp: is_Exception_def)

lemma py_getitem_exc: "py_getitem v k = Inl e \<Longrightarrow> is_Exception e"
  by (cases v) (auto simp: is_Exception_def split: option.splits)

lemma py_get_exc: "py_get v k d = Inl e \<Longrightarrow> is_Exception e"
  by (cases v) (auto simp: is_Exception_def)

lemma py_first_exc: "py_first v = Inl e \<Longrightarrow> is_Exception e"
  by (cases v rule: py_first.cases) (auto simp: is_Exception_def)

section \<open>The schedule gate: properties\<close>

lemma match_rules_wf:
  "list_all wf_rule rs \<Longrightarrow> match_rules d t rs = Inr (list_ex (rule_permits d t) rs)"
proof (induction rs)
  case Nil
  show ?case by simp
next
  case (Cons r rs)
  from Cons.prems obtain kv where r: "r = PDict kv"
    by (cases r) auto
  from Cons.prems r obtain ds a b where
    f: "dict_get kv ''days'' (PList []) = PList ds"
       "dict_get kv ''start_time'' (PStr ''00:00'') = PStr a"
       "dict_get kv ''end_time'' (PStr ''23:59'') = PStr b"
    by (auto elim!: is_list.elims is_str.elims)
  from Cons have ih: "match_rules d t rs = Inr (list_ex (rule_permits d t) rs)"
    by simp
  show ?case
    unfolding r
    by (simp only: match_rules.simps py_get.simps f ih)
       (simp add: list_ex_py_eq f split: bool.splits)
qed

lemma iws_falsy: "\<not> truthy schedule \<Longrightarrow> is_within_schedule en schedule = Inr True"
  by (simp add: is_within_schedule_def)

lemma iws_disabled:
  "\<not> truthy (dict_get kv ''enabled'' PNone) \<Longrightarrow> is_within_schedule en (PDict kv) = Inr True"
  by (simp add: is_within_schedule_def)

lemma iws_enabled:
  assumes "truthy (dict_get kv ''enabled'' PNone)"
    and "resolve_tz en (PDict kv) = Inr tz"
    and "dict_get kv ''rules'' (PList []) = PList rs"
    and "list_all wf_rule rs"
  shows "is_within_schedule en (PDict kv) =
           Inr (list_ex (rule_permits (current_day en tz) (current_time en tz)) rs)"
proof -
  from assms(1) have "kv \<noteq> []"
    by (auto simp: dict_get_def)
  then show ?thesis
    using assms by (simp add: is_within_schedule_def match_rules_wf)
qed

lemma resolve_tz_env:
  "zoneinfo_import en = None \<Longrightarrow>
   zoneinfo_lookup en (dict_get kv ''timezone'' (PStr ''UTC'')) = Inr tz \<Longrightarrow>
   resolve_tz en (PDict kv) = Inr tz"
  by (simp add: resolve_tz_def)

text \<open>
  C5. A schedule that is absent (\<open>None\<close> or the empty dict the loop passes for a
  missing key) or whose \<^verbatim>\<open>enabled\<close> is false or missing permits polling whatever the
  time. For an enabled schedule whose time zone resolves, that is, the import succeeds
  and \<^verbatim>\<open>ZoneInfo\<close> returns a zone for the configured key (\<^verbatim>\<open>UTC\<close> when there is
  none), with rules of the shape the data model gives them: the weekday and the time
  are read in that zone, and polling is permitted exactly when some rule has the current
  weekday (\<open>current_day\<close>: the first three characters of the lower-cased \<^verbatim>\<open>%a\<close>) in
  its day set and the current \<^verbatim>\<open>HH:MM\<close> within its window, both ends included,
  compared lexicographically; when no rule matches the answer is false.
\<close>

theorem schedule_gate_semantics:
  "(\<not> truthy schedule \<longrightarrow> is_within_schedule en schedule = Inr True) \<and>
   (\<not> truthy (dict_get kv ''enabled'' PNone) \<longrightarrow>
      is_within_schedule en (PDict kv) = Inr True) \<and>
   (truthy (dict_get kv ''enabled'' PNone) \<and> zoneinfo_import en = None \<and>
    zoneinfo_lookup en (dict_get kv ''timezone'' (PStr ''UTC'')) = Inr tz \<and>
    dict_get kv ''rules'' (PList []) = PList rs \<and> list_all wf_rule rs \<longrightarrow>
      is_within_schedule en (PDict kv) =
        Inr (list_ex (rule_permits (current_day en tz) (current_time en tz)) rs))"
  using iws_falsy iws_disabled iws_enabled resolve_tz_env by blast

text \<open>
  The rule of the specification's example, Monday 09:00 to 17:00: open on Monday at
  12:00, closed on Monday at 20:00 and on Tuesday at 12:00. Then the two zones at one
  instant: a rule for Tuesday morning is open for a schedule in \<^verbatim>\<open>Asia/Tokyo\<close> and
  closed for the same schedule in \<^verbatim>\<open>UTC\<close>, a rule for Monday evening the other way
  round, and a schedule that names no zone is read in \<^verbatim>\<open>UTC\<close>.
\<close>

theorem schedule_gate_semantics_witness:
  "is_within_schedule sample_env PNone = Inr True \<and>
   is_within_schedule sample_env (PDict [(''enabled'', PBool False)]) = Inr True \<and>
   is_within_schedule sample_env sample_schedule = Inr True \<and>
   is_within_schedule (sample_env\<lparr>now_hhmm := \<lambda>tz. ''20:00''\<rparr>) sample_schedule = Inr False \<and>
   is_within_schedule (sample_env\<lparr>now_weekday := \<lambda>tz. ''Tue''\<rparr>) sample_schedule = Inr False \<and>
   is_within_schedule two_zone_env (zone_schedule ''Asia/Tokyo'' ''tue'' ''00:00'' ''09:00'') = Inr True \<and>
   is_within_schedule two_zone_env (zone_schedule ''UTC'' ''tue'' ''00:00'' ''09:00'') = Inr False \<and>
   is_within_schedule two_zone_env (zone_schedule ''Asia/Tokyo'' ''mon'' ''18:00'' ''23:00'') = Inr False \<and>
   is_within_schedule two_zone_env (zone_schedule ''UTC'' ''mon'' ''18:00'' ''23:00'') = Inr True \<and>
   is_within_schedule two_zone_env
     (PDict [(''enabled'', PBool True), (''rules'', PList (zone_rules ''mon'' ''18:00'' ''23:00''))])
     = Inr True"
proof -
  let ?rule = "PDict [(''days'', PList [PStr ''mon'']), (''start_time'', PStr ''09:00''),
                      (''end_time'', PStr ''17:00'')]"
  let ?kv = "[(''enabled'', PBool True), (''timezone'', PStr ''UTC''), (''rules'', PList [?rule])]"
  let ?late = "sample_env\<lparr>now_hhmm := \<lambda>tz. ''20:00''\<rparr>"
  let ?tue = "sample_env\<lparr>now_weekday := \<lambda>tz. ''Tue''\<rparr>"
  let ?utc = "TZ ''UTC''"
  let ?jst = "TZ ''Asia/Tokyo''"
  have day: "current_day sample_env ?utc = ''mon''"
            "current_day ?late ?utc = ''mon''"
            "current_day ?tue ?utc = ''tue''"
            "current_day two_zone_env ?utc = ''mon''"
            "current_day two_zone_env ?jst = ''tue''"
    by code_simp+
  have tm: "current_time sample_env ?utc = ''12:00''"
           "current_time ?late ?utc = ''20:00''"
           "current_time ?tue ?utc = ''12:00''"
           "current_time two_zone_env ?utc = ''20:00''"
           "current_time two_zone_env ?jst = ''05:00''"
    by (simp_all add: current_time_def sample_env_def two_zone_env_def)
  have imp: "zoneinfo_import sample_env = None" "zoneinfo_import ?late = None"
            "zoneinfo_import ?tue = None" "zoneinfo_import two_zone_env = None"
    by (simp_all add: sample_env_def two_zone_env_def)
  have tz: "zoneinfo_lookup sample_env (PStr ''UTC'') = Inr ?utc"
           "zoneinfo_lookup ?late (PStr ''UTC'') = Inr ?utc"
           "zoneinfo_lookup ?tue (PStr ''UTC'') = Inr ?utc"
           "zoneinfo_lookup two_zone_env (PStr ''UTC'') = Inr ?utc"
           "zoneinfo_lookup two_zone_env (PStr ''Asia/Tokyo'') = Inr ?jst"
    by (simp_all add: sample_env_def two_zone_env_def)
  have wf: "list_all wf_rule (zone_rules d a b)" for d a b
    by (simp add: zone_rules_def dict_get_def)
  have a: "is_within_schedule sample_env PNone = Inr True"
    using schedule_gate_semantics [of PNone sample_env] by simp
  have b: "is_within_schedule sample_env (PDict [(''enabled'', PBool False)]) = Inr True"
    using schedule_gate_semantics [of PNone sample_env "[(''enabled'', PBool False)]"]
    by (simp add: dict_get_def)
  have c: "is_within_schedule sample_env sample_schedule = Inr True"
    using schedule_gate_semantics [where en = sample_env and kv = ?kv and tz = ?utc
        and rs = "[?rule]"] imp tz
    by (simp add: sample_schedule_def day tm dict_get_def)
  have d: "is_within_schedule ?late sample_schedule = Inr False"
    using schedule_gate_semantics [where en = ?late and kv = ?kv and tz = ?utc
        and rs = "[?rule]"] imp tz
    by (simp add: sample_schedule_def day tm dict_get_def)
  have e: "is_within_schedule ?tue sample_schedule = Inr False"
    using schedule_gate_semantics [where en = ?tue and kv = ?kv and tz = ?utc
        and rs = "[?rule]"] imp tz
    by (simp add: sample_schedule_def day tm dict_get_def)
  have zone: "is_within_schedule two_zone_env (zone_schedule z d s t) =
      Inr (list_ex (rule_permits (current_day two_zone_env zt) (current_time two_zone_env zt))
             (zone_rules d s t))"
    if "zoneinfo_lookup two_zone_env (PStr z) = Inr zt" for z d s t zt
    using schedule_gate_semantics [where en = two_zone_env
        and kv = "[(''enabled'', PBool True), (''timezone'', PStr z),
                   (''rules'', PList (zone_rules d s t))]"
        and tz = zt and rs = "zone_rules d s t"] imp that wf [of d s t]
    by (simp add: zone_schedule_def dict_get_def)
  have f: "is_within_schedule two_zone_env
             (zone_schedule ''Asia/Tokyo'' ''tue'' ''00:00'' ''09:00'') = Inr True"
    by (simp add: zone [OF tz(5)] day tm zone_rules_def dict_get_def)
  have g: "is_within_schedule two_zone_env
             (zone_schedule ''UTC'' ''tue'' ''00:00'' ''09:00'') = Inr False"
    by (simp add: zone [OF tz(4)] day tm zone_rules_def dict_get_def)
  have h: "is_within_schedule two_zone_env
             (zone_schedule ''Asia/Tokyo'' ''mon'' ''18:00'' ''23:00'') = Inr False"
    by (simp add: zone [OF tz(5)] day tm zone_rules_def dict_get_def)
  have i: "is_within_schedule two_zone_env
             (zone_schedule ''UTC'' ''mon'' ''18:00'' ''23:00'') = Inr True"
    by (simp add: zone [OF tz(4)] day tm zone_rules_def dict_get_def)
  have j: "is_within_schedule two_zone_env
     (PDict [(''enabled'', PBool True), (''rules'', PList (zone_rules ''mon'' ''18:00'' ''23:00''))])
     = Inr True"
    using schedule_gate_semantics [where en = two_zone_env
        and kv = "[(''enabled'', PBool True),
                   (''rules'', PList (zone_rules ''mon'' ''18:00'' ''23:00''))]"
        and tz = ?utc and rs = "zone_rules ''mon'' ''18:00'' ''23:00''"] imp tz
      wf [of "''mon''" "''18:00''" "''23:00''"]
    by (simp add: dict_get_def day tm) (simp add: zone_rules_def dict_get_def)
  from a b c d e f g h i j show ?thesis by simp
qed

text \<open>
  C6. The handler of \<^verbatim>\<open>is_within_schedule\<close> catches \<open>ImportError\<close> and
  \<open>KeyError\<close>, which covers a missing \<^verbatim>\<open>zoneinfo\<close> module and an unknown zone.
  A time zone key that \<^verbatim>\<open>ZoneInfo\<close> rejects as malformed raises \<open>ValueError\<close>,
  which the handler lets through: on the enabled schedule with the time zone
  \<^verbatim>\<open>/UTC\<close>, or with an empty time zone string, the function raises instead of
  returning true. In the loop the exception reaches the general handler, so the
  iteration counts an error, sleeps and never polls.
\<close>

theorem timezone_malformed_key_raises:
  "is_within_schedule sample_env
     (PDict [(''enabled'', PBool True), (''timezone'', PStr ''/UTC''), (''rules'', PList [])])
   = Inl (External ValueError ''ZoneInfo keys may not be absolute paths, got: /UTC'') \<and>
   is_within_schedule sample_env
     (PDict [(''enabled'', PBool True), (''timezone'', PStr ''''), (''rules'', PList [])])
   = Inl (External ValueError ''ZoneInfo keys must be normalized relative paths, got: '') \<and>
   iteration sample_env
     \<lparr>settings = PDict [(''settings_version'', PInt 1),
         (''schedule'', PDict [(''enabled'', PBool True), (''timezone'', PStr ''/UTC''),
                               (''rules'', PList [])])],
      settings_version = PInt 1, errors = 0\<rparr>
   = ([EvLog (LogError (External ValueError ''ZoneInfo keys may not be absolute paths, got: /UTC'')),
       EvSleep 5],
      Continue
       \<lparr>settings = PDict [(''settings_version'', PInt 1),
           (''schedule'', PDict [(''enabled'', PBool True), (''timezone'', PStr ''/UTC''),
                                 (''rules'', PList [])])],
        settings_version = PInt 1, errors = 1\<rparr>)"
  by (simp add: is_within_schedule_def resolve_tz_def sample_env_def dict_get_def
      iteration_def try_body_def gate_closed_def POLL_INTERVAL_def)

section \<open>The inference client: properties\<close>

lemma has_images_dict: "has_images (PDict r) = Inr (truthy (dict_get r ''images'' PNone))"
  by (cases "map_of r ''images''")
     (simp_all add: has_images_def py_in_dict dict_get_def del: py_in.simps)

lemma has_images_exc: "has_images r = Inl e \<Longrightarrow> is_Exception e"
  by (auto simp: has_images_def split: sum.splits bool.splits dest: py_in_exc py_getitem_exc)

lemma sdxl_result_exc: "sdxl_result r = Inl e \<Longrightarrow> is_Exception e"
  by (auto simp: sdxl_result_def split: sum.splits bool.splits
      dest: py_in_exc py_getitem_exc has_images_exc py_first_exc py_get_exc)

lemma sdxl_request_exc: "sdxl_request p = Inl e \<Longrightarrow> is_Exception e"
  by (cases p) (auto simp: is_Exception_def)

lemma run_sdxl_try_exc:
  "raises_only_Exception (backend_response en) \<Longrightarrow> run_sdxl_try en params = (evs, Inl e)
   \<Longrightarrow> is_Exception e"
  by (auto simp: run_sdxl_try_def split: sum.splits http_outcome.splits if_splits
      dest: sdxl_request_exc sdxl_result_exc)

lemma run_sdxl_total:
  "raises_only_Exception (backend_response en) \<Longrightarrow> \<exists>v. snd (run_sdxl en params) = Inr v"
  by (auto simp: run_sdxl_def split: prod.splits sum.splits dest: run_sdxl_try_exc)

lemma sdxl_result_images:
  "map_of r ''images'' = Some (PList (x # xs)) \<Longrightarrow>
   sdxl_result (PDict r) =
     Inr (PDict [(''image'', x), (''seed'', dict_get r ''seed'' (PInt (- 1)))])"
  by (simp add: sdxl_result_def has_images_dict dict_get_def)

lemma sdxl_result_no_image:
  "\<not> truthy (dict_get r ''images'' PNone) \<Longrightarrow> map_of r ''image'' = None \<Longrightarrow>
   sdxl_result (PDict r) = Inr (PDict [(''error'', PStr ''No image'')])"
  by (simp add: sdxl_result_def has_images_dict py_in_dict del: py_in.simps)

lemma run_sdxl_200:
  "backend_response en = Response 200 (Inr r) \<Longrightarrow> sdxl_result r = Inr v \<Longrightarrow>
   snd (run_sdxl en (PDict p)) = Inr v"
  by (simp add: run_sdxl_def run_sdxl_try_def)

lemma run_sdxl_status:
  "backend_response en = Response code body \<Longrightarrow> code \<noteq> 200 \<Longrightarrow>
   snd (run_sdxl en (PDict p)) =
     Inr (PDict [(''error'', PStr (''Server error '' @ show_int code))])"
  by (simp add: run_sdxl_def run_sdxl_try_def)

lemma run_sdxl_raises:
  "backend_response en = Raises e \<Longrightarrow> is_Exception e \<Longrightarrow>
   snd (run_sdxl en (PDict p)) = Inr (PDict [(''error'', PStr (exc_str en e))])"
  by (simp add: run_sdxl_def run_sdxl_try_def)

text \<open>
  C7. \<^verbatim>\<open>run_sdxl\<close> returns a result for every \<open>params\<close> and every outcome of the
  backend call that is not an interrupt: no exception that is an \<^verbatim>\<open>Exception\<close> leaves
  it. Once the request is sent (\<open>params\<close> is a dict):
  a 200 response whose body is an object with a non-empty list under \<^verbatim>\<open>images\<close> gives
  the first element as \<^verbatim>\<open>image\<close> and the reported \<^verbatim>\<open>seed\<close>, or \<open>-1\<close>;
  a status \<open>N\<close> other than 200 gives the error \<^verbatim>\<open>Server error N\<close>;
  a 200 response whose body is an object with \<^verbatim>\<open>images\<close> missing or empty and no
  \<^verbatim>\<open>image\<close> gives the error \<^verbatim>\<open>No image\<close>;
  an exception raised by the call gives its text as the error.
\<close>

theorem inference_response_mapping:
  "(raises_only_Exception (backend_response en) \<longrightarrow>
      (\<exists>v. snd (run_sdxl en params) = Inr v)) \<and>
   (backend_response en = Response 200 (Inr (PDict r)) \<and>
    map_of r ''images'' = Some (PList (x # xs)) \<longrightarrow>
      snd (run_sdxl en (PDict p)) =
        Inr (PDict [(''image'', x), (''seed'', dict_get r ''seed'' (PInt (- 1)))])) \<and>
   (backend_response en = Response code body \<and> code \<noteq> 200 \<longrightarrow>
      snd (run_sdxl en (PDict p)) =
        Inr (PDict [(''error'', PStr (''Server error '' @ show_int code))])) \<and>
   (backend_response en = Response 200 (Inr (PDict r)) \<and>
    \<not> truthy (dict_get r ''images'' PNone) \<and> map_of r ''image'' = None \<longrightarrow>
      snd (run_sdxl en (PDict p)) = Inr (PDict [(''error'', PStr ''No image'')])) \<and>
   (backend_response en = Raises (External c msg) \<and> c \<noteq> KeyboardInterrupt \<longrightarrow>
      snd (run_sdxl en (PDict p)) = Inr (PDict [(''error'', PStr msg)]))"
proof (intro conjI impI)
  assume "raises_only_Exception (backend_response en)"
  then show "\<exists>v. snd (run_sdxl en params) = Inr v"
    by (rule run_sdxl_total)
next
  assume "backend_response en = Response 200 (Inr (PDict r)) \<and>
    map_of r ''images'' = Some (PList (x # xs))"
  then show "snd (run_sdxl en (PDict p)) =
        Inr (PDict [(''image'', x), (''seed'', dict_get r ''seed'' (PInt (- 1)))])"
    by (simp add: run_sdxl_200 sdxl_result_images)
next
  assume "backend_response en = Response code body \<and> code \<noteq> 200"
  then show "snd (run_sdxl en (PDict p)) =
        Inr (PDict [(''error'', PStr (''Server error '' @ show_int code))])"
    by (simp add: run_sdxl_status)
next
  assume "backend_response en = Response 200 (Inr (PDict r)) \<and>
    \<not> truthy (dict_get r ''images'' PNone) \<and> map_of r ''image'' = None"
  then show "snd (run_sdxl en (PDict p)) = Inr (PDict [(''error'', PStr ''No image'')])"
    by (simp add: run_sdxl_200 sdxl_result_no_image)
next
  assume "backend_response en = Raises (External c msg) \<and> c \<noteq> KeyboardInterrupt"
  then show "snd (run_sdxl en (PDict p)) = Inr (PDict [(''error'', PStr msg)])"
    using run_sdxl_raises [of en "External c msg" p]
    by (simp add: is_Exception_def exc_str_def)
qed

text \<open>
  The examples of the specification: the body \<^verbatim>\<open>{"images": ["abc"], "seed": 42}\<close>, the
  status 500, a body with neither \<^verbatim>\<open>images\<close> nor \<^verbatim>\<open>image\<close>; then a refused
  connection, and parameters that are not a dict.
\<close>

theorem inference_response_mapping_witness:
  "snd (run_sdxl sample_env (PDict [(''prompt'', PStr ''a cat'')])) =
     Inr (PDict [(''image'', PStr ''abc''), (''seed'', PInt 42)]) \<and>
   snd (run_sdxl
          (sample_env\<lparr>backend_response := Response 500 (Inl (External ValueError ''no JSON''))\<rparr>)
          (PDict [(''prompt'', PStr ''a cat'')])) =
     Inr (PDict [(''error'', PStr ''Server error 500'')]) \<and>
   snd (run_sdxl
          (sample_env\<lparr>backend_response := Response 200 (Inr (PDict [(''info'', PStr ''done'')]))\<rparr>)
          (PDict [(''prompt'', PStr ''a cat'')])) =
     Inr (PDict [(''error'', PStr ''No image'')]) \<and>
   snd (run_sdxl
          (sample_env\<lparr>backend_response := Raises (External OSError ''Connection refused'')\<rparr>)
          (PDict [(''prompt'', PStr ''a cat'')])) =
     Inr (PDict [(''error'', PStr ''Connection refused'')]) \<and>
   (\<exists>v. snd (run_sdxl sample_env (PStr ''not a dict'')) = Inr v)"
proof -
  let ?p = "[(''prompt'', PStr ''a cat'')]"
  let ?r = "[(''images'', PList [PStr ''abc'']), (''seed'', PInt 42)]"
  let ?e500 =
    "sample_env\<lparr>backend_response := Response 500 (Inl (External ValueError ''no JSON''))\<rparr>"
  let ?e200 =
    "sample_env\<lparr>backend_response := Response 200 (Inr (PDict [(''info'', PStr ''done'')]))\<rparr>"
  let ?eraise =
    "sample_env\<lparr>backend_response := Raises (External OSError ''Connection refused'')\<rparr>"
  have s500: "show_int 500 = ''500''"
    by code_simp
  have a: "snd (run_sdxl sample_env (PDict ?p)) =
      Inr (PDict [(''image'', PStr ''abc''), (''seed'', PInt 42)])"
    using inference_response_mapping
      [of sample_env "PDict ?p" ?r "PStr ''abc''" "[]" ?p 200 "Inr (PDict ?r)" OSError "[]"]
    by (simp add: sample_env_def dict_get_def)
  have b: "snd (run_sdxl ?e500 (PDict ?p)) = Inr (PDict [(''error'', PStr ''Server error 500'')])"
    using inference_response_mapping
      [of ?e500 "PDict ?p" ?r "PStr ''abc''" "[]" ?p 500 "Inl (External ValueError ''no JSON'')"
          OSError "[]"]
    by (simp add: s500)
  have c: "snd (run_sdxl ?e200 (PDict ?p)) = Inr (PDict [(''error'', PStr ''No image'')])"
    using inference_response_mapping
      [of ?e200 "PDict ?p" "[(''info'', PStr ''done'')]" "PStr ''abc''" "[]" ?p 200
          "Inr (PDict [(''info'', PStr ''done'')])" OSError "[]"]
    by (simp add: dict_get_def)
  have d: "snd (run_sdxl ?eraise (PDict ?p)) =
      Inr (PDict [(''error'', PStr ''Connection refused'')])"
    using inference_response_mapping
      [of ?eraise "PDict ?p" ?r "PStr ''abc''" "[]" ?p 200 "Inr (PDict ?r)" OSError
          "''Connection refused''"]
    by simp
  have e: "\<exists>v. snd (run_sdxl sample_env (PStr ''not a dict'')) = Inr v"
    using inference_response_mapping
      [of sample_env "PStr ''not a dict''" ?r "PStr ''abc''" "[]" ?p 200 "Inr (PDict ?r)"
          OSError "[]"]
    by (simp add: sample_env_def)
  from a b c d e show ?thesis by simp
qed

section \<open>Processing a job: properties\<close>

lemma map_of_dict_set: "map_of (dict_set kv k v) k = Some v"
  by (induction kv) auto

lemma run_sdxl_is_dict: "snd (run_sdxl en params) = Inr v \<Longrightarrow> \<exists>kv. v = PDict kv"
  by (auto simp: run_sdxl_def run_sdxl_try_def sdxl_result_def
      split: prod.splits sum.splits http_outcome.splits if_splits bool.splits)

lemma run_sdxl_posts: "list_ex is_backend_post (fst (run_sdxl en (PDict p)))"
  by (simp add: run_sdxl_def run_sdxl_try_def split: http_outcome.splits sum.splits)

lemma process_job_unsupported:
  assumes "map_of kv ''id'' = Some (PStr i)"
    and "dict_get kv ''service'' (PStr ''sdxl'') = tag"
    and "tag \<noteq> PStr ''sdxl''"
  shows "process_job en (PDict kv) =
     ([EvLog (LogProcessing tag (PStr (take 8 i)))],
      Inr (PDict [(''error'', PStr (''Unsupported service: '' @ py_str en tag))]))"
  using assms by (simp add: process_job_def py_eq_PStr2)

lemma process_job_supported:
  assumes "map_of kv ''id'' = Some (PStr i)"
    and "dict_get kv ''service'' (PStr ''sdxl'') = PStr ''sdxl''"
    and "run_sdxl en (dict_get kv ''params'' (PDict [])) = (evs, Inr (PDict r))"
  shows "process_job en (PDict kv) =
     (case map_of r ''error'' of
        Some msg \<Rightarrow>
          (EvLog (LogProcessing (PStr ''sdxl'') (PStr (take 8 i))) # evs
             @ [EvLog (LogJobFailed msg)],
           Inr (PDict [(''error'', msg)]))
      | None \<Rightarrow>
          (EvLog (LogProcessing (PStr ''sdxl'') (PStr (take 8 i))) # evs
             @ [EvLog (LogJobCompleted (elapsed_time en))],
           Inr (PDict [(''result'',
                  PDict (dict_set r ''inference_time'' (PFloat (elapsed_time en))))])))"
  using assms
  by (simp add: process_job_def py_in_dict del: py_in.simps split: option.splits)

lemma process_job_interrupted:
  assumes "map_of kv ''id'' = Some (PStr i)"
    and "dict_get kv ''service'' (PStr ''sdxl'') = PStr ''sdxl''"
    and "run_sdxl en (dict_get kv ''params'' (PDict [])) = (evs, Inl e)"
  shows "process_job en (PDict kv) =
           (EvLog (LogProcessing (PStr ''sdxl'') (PStr (take 8 i))) # evs, Inl e)"
  using assms by (simp add: process_job_def)

lemma process_job_returns:
  assumes "map_of kv ''id'' = Some (PStr i)"
    and "raises_only_Exception (backend_response en)"
  shows "\<exists>v. snd (process_job en (PDict kv)) = Inr v"
proof (cases "dict_get kv ''service'' (PStr ''sdxl'') = PStr ''sdxl''")
  case False
  with assms(1) show ?thesis
    by (simp add: process_job_unsupported)
next
  case True
  obtain evs res where rs: "run_sdxl en (dict_get kv ''params'' (PDict [])) = (evs, res)"
    by (cases "run_sdxl en (dict_get kv ''params'' (PDict []))")
  from run_sdxl_total [OF assms(2), of "dict_get kv ''params'' (PDict [])"] rs
  obtain v where v: "res = Inr v"
    by auto
  with rs run_sdxl_is_dict [of en "dict_get kv ''params'' (PDict [])" v]
  obtain r where "res = Inr (PDict r)"
    by auto
  with rs assms(1) True show ?thesis
    by (simp add: process_job_supported split: option.splits)
qed

lemma process_job_shape:
  assumes "snd (process_job en job) = Inr v"
  shows "(\<exists>msg. v = PDict [(''error'', msg)]) \<or>
         (\<exists>r. v = PDict [(''result'', r)] \<and>
              py_getitem r ''inference_time'' = Inr (PFloat (elapsed_time en)))"
  using assms
  by (auto simp: process_job_def map_of_dict_set
      split: sum.splits prod.splits if_splits bool.splits
      elim!: py_setitem.elims)

lemma process_job_default:
  assumes "map_of kv ''id'' = Some (PStr i)"
    and "dict_get kv ''service'' (PStr ''sdxl'') = PStr ''sdxl''"
  shows "\<exists>rest. fst (process_job en (PDict kv)) =
        EvLog (LogProcessing (PStr ''sdxl'') (PStr (take 8 i)))
          # fst (run_sdxl en (dict_get kv ''params'' (PDict []))) @ rest"
proof -
  obtain evs res where rs: "run_sdxl en (dict_get kv ''params'' (PDict [])) = (evs, res)"
    by (cases "run_sdxl en (dict_get kv ''params'' (PDict []))")
  show ?thesis
  proof (cases res)
    case (Inl e)
    with rs assms show ?thesis
      by (simp add: process_job_interrupted)
  next
    case (Inr v)
    with rs run_sdxl_is_dict [of en "dict_get kv ''params'' (PDict [])" v]
    obtain r where "res = Inr (PDict r)"
      by auto
    with rs assms show ?thesis
      by (simp add: process_job_supported split: option.splits)
  qed
qed

text \<open>
  C8. A job (a dict with a string id, as the data model has it) that declares a service
  other than \<^verbatim>\<open>sdxl\<close> gets the result \<^verbatim>\<open>{error: "Unsupported service: <tag>"}\<close>, the
  tag rendered as Python's \<^verbatim>\<open>str\<close> does (a string tag as itself). The only event is
  the log line: the inference backend is not called.
\<close>

theorem unsupported_service_rejected:
  "map_of kv ''service'' = Some tag \<and> tag \<noteq> PStr ''sdxl'' \<and>
   map_of kv ''id'' = Some (PStr i) \<longrightarrow>
     snd (process_job en (PDict kv)) =
       Inr (PDict [(''error'', PStr (''Unsupported service: '' @ py_str en tag))]) \<and>
     \<not> list_ex is_backend_post (fst (process_job en (PDict kv))) \<and>
     fst (process_job en (PDict kv)) = [EvLog (LogProcessing tag (PStr (take 8 i)))]"
  by (simp add: process_job_unsupported dict_get_def)

text \<open>The job of the specification's example, with the service \<^verbatim>\<open>unknown\<close>.\<close>

theorem unsupported_service_rejected_witness:
  "map_of [(''id'', PStr ''0123456789abcdef''), (''service'', PStr ''unknown'')] ''service''
     = Some (PStr ''unknown'') \<and>
   PStr ''unknown'' \<noteq> PStr ''sdxl'' \<and>
   process_job sample_env
     (PDict [(''id'', PStr ''0123456789abcdef''), (''service'', PStr ''unknown'')]) =
     ([EvLog (LogProcessing (PStr ''unknown'') (PStr ''01234567''))],
      Inr (PDict [(''error'', PStr ''Unsupported service: unknown'')]))"
proof -
  let ?kv = "[(''id'', PStr ''0123456789abcdef''), (''service'', PStr ''unknown'')]"
  have hyp: "map_of ?kv ''service'' = Some (PStr ''unknown'') \<and>
             PStr ''unknown'' \<noteq> PStr ''sdxl'' \<and>
             map_of ?kv ''id'' = Some (PStr ''0123456789abcdef'')"
    by simp
  from unsupported_service_rejected
         [of ?kv "PStr ''unknown''" "''0123456789abcdef''" sample_env] hyp
  have "snd (process_job sample_env (PDict ?kv)) =
          Inr (PDict [(''error'',
                 PStr (''Unsupported service: '' @ py_str sample_env (PStr ''unknown'')))]) \<and>
        fst (process_job sample_env (PDict ?kv)) =
          [EvLog (LogProcessing (PStr ''unknown'') (PStr (take 8 ''0123456789abcdef'')))]"
    by blast
  then have "process_job sample_env (PDict ?kv) =
     ([EvLog (LogProcessing (PStr ''unknown'') (PStr ''01234567''))],
      Inr (PDict [(''error'', PStr ''Unsupported service: unknown'')]))"
    by (cases "process_job sample_env (PDict ?kv)") simp
  with hyp show ?thesis
    by simp
qed

text \<open>
  C9. \<^verbatim>\<open>process_job\<close> returns for every job with a string id, unless the backend call
  is interrupted. Whatever it returns has exactly one of the fields \<^verbatim>\<open>error\<close> and
  \<^verbatim>\<open>result\<close>, never both and never neither, and a \<^verbatim>\<open>result\<close> carries the measured
  \<^verbatim>\<open>inference_time\<close>.
\<close>

theorem job_result_exclusive:
  "(map_of kv ''id'' = Some (PStr i) \<and> raises_only_Exception (backend_response en) \<longrightarrow>
      (\<exists>v. snd (process_job en (PDict kv)) = Inr v)) \<and>
   (snd (process_job en job) = Inr v \<longrightarrow>
      (populated ''error'' v \<noteq> populated ''result'' v) \<and>
      (populated ''result'' v \<longrightarrow>
         (\<exists>r. v = PDict [(''result'', r)] \<and>
              py_getitem r ''inference_time'' = Inr (PFloat (elapsed_time en)))))"
proof (intro conjI impI)
  assume "map_of kv ''id'' = Some (PStr i) \<and> raises_only_Exception (backend_response en)"
  then show "\<exists>v. snd (process_job en (PDict kv)) = Inr v"
    by (simp add: process_job_returns)
next
  assume "snd (process_job en job) = Inr v"
  from process_job_shape [OF this]
  show "populated ''error'' v \<noteq> populated ''result'' v"
    by auto
next
  assume "snd (process_job en job) = Inr v" and "populated ''result'' v"
  with process_job_shape [of en job v]
  show "\<exists>r. v = PDict [(''result'', r)] \<and>
            py_getitem r ''inference_time'' = Inr (PFloat (elapsed_time en))"
    by auto
qed

text \<open>A job that succeeds, and the same job while the backend refuses the connection.\<close>

theorem job_result_exclusive_witness:
  "snd (process_job sample_env sample_job) =
     Inr (PDict [(''result'',
            PDict [(''image'', PStr ''abc''), (''seed'', PInt 42),
                   (''inference_time'', PFloat (3 / 2))])]) \<and>
   populated ''result'' (PDict [(''result'',
            PDict [(''image'', PStr ''abc''), (''seed'', PInt 42),
                   (''inference_time'', PFloat (3 / 2))])]) \<and>
   \<not> populated ''error'' (PDict [(''result'',
            PDict [(''image'', PStr ''abc''), (''seed'', PInt 42),
                   (''inference_time'', PFloat (3 / 2))])]) \<and>
   (\<exists>v. snd (process_job
               (sample_env\<lparr>backend_response := Raises (External OSError ''Connection refused'')\<rparr>)
               sample_job) = Inr v \<and>
        populated ''error'' v \<and> \<not> populated ''result'' v)"
proof -
  let ?kv = "[(''id'', PStr ''0123456789abcdef''),
              (''params'', PDict [(''prompt'', PStr ''a cat'')])]"
  let ?v = "PDict [(''result'',
            PDict [(''image'', PStr ''abc''), (''seed'', PInt 42),
                   (''inference_time'', PFloat (3 / 2))])]"
  let ?down =
    "sample_env\<lparr>backend_response := Raises (External OSError ''Connection refused'')\<rparr>"
  have ok: "snd (process_job sample_env sample_job) = Inr ?v"
    by (simp add: sample_job_def sample_env_def process_job_def run_sdxl_def run_sdxl_try_def
        sdxl_result_def has_images_def dict_get_def py_eq_PStr2)
  from job_result_exclusive [of ?kv "''0123456789abcdef''" sample_env sample_job ?v] ok
  have one: "populated ''error'' ?v \<noteq> populated ''result'' ?v"
    by blast
  have "map_of ?kv ''id'' = Some (PStr ''0123456789abcdef'') \<and>
        raises_only_Exception (backend_response ?down)"
    by (simp add: is_Exception_def)
  with job_result_exclusive [of ?kv "''0123456789abcdef''" ?down]
  obtain w where w: "snd (process_job ?down (PDict ?kv)) = Inr w"
    by blast
  have "snd (process_job ?down (PDict ?kv)) =
          Inr (PDict [(''error'', PStr ''Connection refused'')])"
    by (simp add: process_job_def run_sdxl_def run_sdxl_try_def
        dict_get_def py_eq_PStr2 is_Exception_def exc_str_def)
  with w job_result_exclusive [of ?kv "''0123456789abcdef''" ?down "PDict ?kv" w]
  have "snd (process_job ?down sample_job) = Inr w \<and>
        populated ''error'' w \<and> \<not> populated ''result'' w"
    by (auto simp: sample_job_def)
  with ok one show ?thesis
    by auto
qed

text \<open>
  C10. A job without a \<^verbatim>\<open>service\<close> key is processed exactly as the same job with
  \<^verbatim>\<open>service\<close> set to \<^verbatim>\<open>sdxl\<close>: it passes the service check, \<^verbatim>\<open>run_sdxl\<close> is
  called on its parameters, and with parameters that are a dict (or absent) the request
  goes to the inference backend.
\<close>

theorem missing_service_defaults_to_sdxl:
  "map_of kv ''service'' = None \<and> map_of kv ''id'' = Some (PStr i) \<longrightarrow>
     process_job en (PDict kv) = process_job en (PDict ((''service'', PStr ''sdxl'') # kv)) \<and>
     (\<exists>rest. fst (process_job en (PDict kv)) =
        EvLog (LogProcessing (PStr ''sdxl'') (PStr (take 8 i)))
          # fst (run_sdxl en (dict_get kv ''params'' (PDict []))) @ rest) \<and>
     (is_dict (dict_get kv ''params'' (PDict [])) \<longrightarrow>
        list_ex is_backend_post (fst (process_job en (PDict kv))))"
proof (intro impI conjI)
  assume a: "map_of kv ''service'' = None \<and> map_of kv ''id'' = Some (PStr i)"
  then have svc: "dict_get kv ''service'' (PStr ''sdxl'') = PStr ''sdxl''"
    by (simp add: dict_get_def)
  from a show
    "process_job en (PDict kv) = process_job en (PDict ((''service'', PStr ''sdxl'') # kv))"
    by (simp add: process_job_def dict_get_def)
  from a svc process_job_default [of kv i en]
  obtain rest where rest: "fst (process_job en (PDict kv)) =
        EvLog (LogProcessing (PStr ''sdxl'') (PStr (take 8 i)))
          # fst (run_sdxl en (dict_get kv ''params'' (PDict []))) @ rest"
    by auto
  then show "\<exists>rest. fst (process_job en (PDict kv)) =
        EvLog (LogProcessing (PStr ''sdxl'') (PStr (take 8 i)))
          # fst (run_sdxl en (dict_get kv ''params'' (PDict []))) @ rest"
    by blast
  assume "is_dict (dict_get kv ''params'' (PDict []))"
  then obtain p where "dict_get kv ''params'' (PDict []) = PDict p"
    by (auto elim: is_dict.elims)
  with rest run_sdxl_posts [of en p]
  show "list_ex is_backend_post (fst (process_job en (PDict kv)))"
    by simp
qed

theorem missing_service_defaults_to_sdxl_witness:
  "process_job sample_env sample_job =
     ([EvLog (LogProcessing (PStr ''sdxl'') (PStr ''01234567'')),
       EvBackendPost
        (PDict
          [(''prompt'', PStr ''a cat''), (''negative_prompt'', PStr []),
           (''width'', PInt 1024), (''height'', PInt 1024),
           (''steps'', PInt 20), (''cfg_scale'', PFloat 7),
           (''seed'', PInt (- 1)), (''sample_method'', PStr ''euler_a'')]),
       EvLog (LogJobCompleted (3 / 2))],
      Inr (PDict [(''result'',
             PDict [(''image'', PStr ''abc''), (''seed'', PInt 42),
                    (''inference_time'', PFloat (3 / 2))])])) \<and>
   process_job sample_env sample_job =
     process_job sample_env
       (PDict [(''service'', PStr ''sdxl''), (''id'', PStr ''0123456789abcdef''),
               (''params'', PDict [(''prompt'', PStr ''a cat'')])]) \<and>
   list_ex is_backend_post (fst (process_job sample_env sample_job))"
proof -
  let ?kv = "[(''id'', PStr ''0123456789abcdef''),
              (''params'', PDict [(''prompt'', PStr ''a cat'')])]"
  have ev: "process_job sample_env sample_job =
     ([EvLog (LogProcessing (PStr ''sdxl'') (PStr ''01234567'')),
       EvBackendPost
        (PDict
          [(''prompt'', PStr ''a cat''), (''negative_prompt'', PStr []),
           (''width'', PInt 1024), (''height'', PInt 1024),
           (''steps'', PInt 20), (''cfg_scale'', PFloat 7),
           (''seed'', PInt (- 1)), (''sample_method'', PStr ''euler_a'')]),
       EvLog (LogJobCompleted (3 / 2))],
      Inr (PDict [(''result'',
             PDict [(''image'', PStr ''abc''), (''seed'', PInt 42),
                    (''inference_time'', PFloat (3 / 2))])]))"
    by (simp add: sample_job_def sample_env_def process_job_def run_sdxl_def run_sdxl_try_def
        sdxl_result_def has_images_def dict_get_def py_eq_PStr2)
  have hyp: "map_of ?kv ''service'' = None \<and>
             map_of ?kv ''id'' = Some (PStr ''0123456789abcdef'')"
    by simp
  have dict: "is_dict (dict_get ?kv ''params'' (PDict []))"
    by (simp add: dict_get_def)
  from missing_service_defaults_to_sdxl [of ?kv "''0123456789abcdef''" sample_env] hyp dict
  have "process_job sample_env (PDict ?kv) =
          process_job sample_env (PDict ((''service'', PStr ''sdxl'') # ?kv)) \<and>
        list_ex is_backend_post (fst (process_job sample_env (PDict ?kv)))"
    by blast
  with ev show ?thesis
    by (simp add: sample_job_def)
qed

section \<open>The worker loop: properties\<close>

lemma gate_closed_errors [simp]: "gate_closed en (st\<lparr>errors := k\<rparr>) = gate_closed en st"
  by (simp add: gate_closed_def)

lemma transient_failure_errors [simp]:
  "transient_failure (st\<lparr>errors := k\<rparr>) = transient_failure st"
  by (rule ext) (simp add: transient_failure_def)

lemma failing_iteration:
  assumes "transient_failure st en"
  shows "\<exists>evs. iteration en st =
           (evs @ [EvSleep (min (POLL_INTERVAL * (errors st + 1)) 60)],
            Continue (st\<lparr>errors := errors st + 1\<rparr>))"
proof (cases "poll_response en")
  case (Raises e)
  with assms show ?thesis
    by (simp add: transient_failure_def iteration_def try_body_def is_Exception_def)
next
  case (Response code body)
  show ?thesis
  proof (cases "code = 200")
    case True
    with assms Response obtain e where "body = Inl e" "is_Exception e"
      by (cases body) (auto simp: transient_failure_def)
    with assms Response True show ?thesis
      by (simp add: transient_failure_def iteration_def try_body_def is_Exception_def)
  next
    case False
    with assms Response have "code \<noteq> 401"
      by (cases body) (auto simp: transient_failure_def)
    with assms Response False have
      "iteration en st = ([EvPoll] @ [EvSleep (min (POLL_INTERVAL * (errors st + 1)) 60)],
            Continue (st\<lparr>errors := errors st + 1\<rparr>))"
      by (simp add: transient_failure_def iteration_def try_body_def sleep_signal_def)
    then show ?thesis
      by blast
  qed
qed

lemma failing_iterations:
  "ens \<noteq> [] \<Longrightarrow> list_all (transient_failure st) ens \<Longrightarrow>
   \<exists>evs. worker_loop ens st =
     (evs @ [EvSleep (min (POLL_INTERVAL * (errors st + length ens)) 60)],
      Continue (st\<lparr>errors := errors st + length ens\<rparr>))"
proof (induction ens arbitrary: st)
  case Nil
  then show ?case by simp
next
  case (Cons en ens)
  from Cons.prems have tf: "transient_failure st en"
    by simp
  from failing_iteration [OF tf] obtain evs where
    it: "iteration en st =
           (evs @ [EvSleep (min (POLL_INTERVAL * (errors st + 1)) 60)],
            Continue (st\<lparr>errors := errors st + 1\<rparr>))"
    by blast
  show ?case
  proof (cases "ens = []")
    case True
    with it show ?thesis
      by simp
  next
    case False
    from Cons.prems have "list_all (transient_failure (st\<lparr>errors := errors st + 1\<rparr>)) ens"
      by simp
    from Cons.IH [OF False this] obtain evs' where
      "worker_loop ens (st\<lparr>errors := errors st + 1\<rparr>) =
         (evs' @ [EvSleep (min (POLL_INTERVAL * (errors st + 1 + length ens)) 60)],
          Continue (st\<lparr>errors := errors st + 1 + length ens\<rparr>))"
      by auto
    with it have "worker_loop (en # ens) st =
        ((evs @ [EvSleep (min (POLL_INTERVAL * (errors st + 1)) 60)] @ evs')
           @ [EvSleep (min (POLL_INTERVAL * (errors st + length (en # ens))) 60)],
         Continue (st\<lparr>errors := errors st + length (en # ens)\<rparr>))"
      by (simp add: add.commute add.left_commute)
    then show ?thesis
      by blast
  qed
qed

lemma after_poll_normal: "after_poll en st data = (evs, st', Normal) \<Longrightarrow> errors st' = 0"
  by (auto simp: after_poll_def sleep_signal_def
      split: prod.splits option.splits sum.splits if_splits http_outcome.splits)

lemma iteration_after_poll:
  assumes "gate_closed en st = Inr False"
    and "poll_response en = Response 200 (Inr data)"
    and "after_poll en st data = (evs, st', sg)"
  shows "iteration en st =
     (case sg of
        Normal \<Rightarrow> (EvPoll # evs, Continue st')
      | Return \<Rightarrow> (EvPoll # evs, Stopped)
      | Raise e \<Rightarrow>
          if exc_class_of e = KeyboardInterrupt
          then (EvPoll # evs @ [EvLog LogShuttingDown], Stopped)
          else
            (EvPoll # evs @ [EvLog (LogError e), EvSleep (min (POLL_INTERVAL * (errors st' + 1)) 60)],
             if sleep_interrupt en then Escaped (External KeyboardInterrupt [])
             else Continue (st'\<lparr>errors := errors st' + 1\<rparr>)))"
  using assms by (simp add: iteration_def try_body_def split: signal.splits)

lemma gate_skip:
  "gate_closed en st = Inr True \<Longrightarrow> \<not> sleep_interrupt en \<Longrightarrow>
   iteration en st = ([EvSleep POLL_INTERVAL], Continue st)"
  by (simp add: iteration_def try_body_def sleep_signal_def)






text \<open>
  A successful poll need not reset the error counter. Here the poll answers 200 with
  newer settings and no job, and writing the settings file fails: the counter goes from
  2 to 3 and the loop sleeps 15 seconds.
\<close>

theorem backoff_policy_counterexample:
  "iteration
     (poll_sync\<lparr>save_outcome := Some (External OSError ''No space left on device'')\<rparr>)
     \<lparr>settings = PNone, settings_version = PInt 1, errors = 2\<rparr> =
   ([EvPoll, EvSave (PDict [(''settings_version'', PInt 2)]),
     EvLog (LogError (External OSError ''No space left on device'')), EvSleep 15],
    Continue \<lparr>settings = PDict [(''settings_version'', PInt 2)], settings_version = PInt 1,
              errors = 3\<rparr>)"
  by (simp add: poll_sync_def sample_env_def iteration_def try_body_def gate_closed_def
      after_poll_def sync_settings_def dict_get_def POLL_INTERVAL_def)

text \<open>
  C3, as the loop has it. After \<open>N \<ge> 1\<close> consecutive transient poll failures that
  start from a counter \<open>c\<close>, the counter is \<open>c + N\<close> and the last sleep is
  \<open>min (POLL_INTERVAL * (c + N)) 60\<close> seconds, which is \<open>min (POLL_INTERVAL * N) 60\<close>
  from a counter of 0. A poll that answers 200 with a decodable body leaves the counter
  at 0 when the rest of the iteration ends normally, with or without a job; when the
  rest of the iteration raises (settings sync, job processing or completion call), the
  general handler counts the exception like a poll failure. An iteration that the
  schedule gate makes skip the poll leaves the counter unchanged.
\<close>

theorem backoff_policy:
  "(ens \<noteq> [] \<and> list_all (transient_failure st) ens \<longrightarrow>
      (\<exists>evs. worker_loop ens st =
         (evs @ [EvSleep (min (POLL_INTERVAL * (errors st + length ens)) 60)],
          Continue (st\<lparr>errors := errors st + length ens\<rparr>)))) \<and>
   (gate_closed en st = Inr False \<and> poll_response en = Response 200 (Inr data) \<and>
    after_poll en st data = (evs, st', Normal) \<longrightarrow>
      iteration en st = (EvPoll # evs, Continue st') \<and> errors st' = 0) \<and>
   (gate_closed en st = Inr False \<and> poll_response en = Response 200 (Inr data) \<and>
    after_poll en st data = (evs, st', Raise e) \<and> is_Exception e \<and> \<not> sleep_interrupt en \<longrightarrow>
      iteration en st =
        (EvPoll # evs @ [EvLog (LogError e), EvSleep (min (POLL_INTERVAL * (errors st' + 1)) 60)],
         Continue (st'\<lparr>errors := errors st' + 1\<rparr>))) \<and>
   (gate_closed en st = Inr True \<and> \<not> sleep_interrupt en \<longrightarrow>
      iteration en st = ([EvSleep POLL_INTERVAL], Continue st))"
proof (intro conjI impI)
  assume "ens \<noteq> [] \<and> list_all (transient_failure st) ens"
  then show "\<exists>evs. worker_loop ens st =
         (evs @ [EvSleep (min (POLL_INTERVAL * (errors st + length ens)) 60)],
          Continue (st\<lparr>errors := errors st + length ens\<rparr>))"
    by (simp add: failing_iterations)
next
  assume a: "gate_closed en st = Inr False \<and> poll_response en = Response 200 (Inr data) \<and>
    after_poll en st data = (evs, st', Normal)"
  then show "iteration en st = (EvPoll # evs, Continue st')"
    by (simp add: iteration_after_poll)
  from a after_poll_normal [of en st data evs st'] show "errors st' = 0"
    by simp
next
  assume "gate_closed en st = Inr False \<and> poll_response en = Response 200 (Inr data) \<and>
    after_poll en st data = (evs, st', Raise e) \<and> is_Exception e \<and> \<not> sleep_interrupt en"
  then show "iteration en st =
        (EvPoll # evs @ [EvLog (LogError e), EvSleep (min (POLL_INTERVAL * (errors st' + 1)) 60)],
         Continue (st'\<lparr>errors := errors st' + 1\<rparr>))"
    by (simp add: iteration_after_poll is_Exception_def)
next
  assume "gate_closed en st = Inr True \<and> \<not> sleep_interrupt en"
  then show "iteration en st = ([EvSleep POLL_INTERVAL], Continue st)"
    by (simp add: gate_skip)
qed

text \<open>
  Three failures in a row from the initial state sleep 15 seconds at the end, thirteen
  sleep the capped 60; an idle poll and a poll with a job both reset a counter of 3; a
  closed gate keeps it.
\<close>

theorem backoff_policy_witness:
  "list_all (transient_failure idle_state) [poll_503, poll_down, poll_503] \<and>
   snd (worker_loop [poll_503, poll_down, poll_503] idle_state) =
     Continue (idle_state\<lparr>errors := 3\<rparr>) \<and>
   last (fst (worker_loop [poll_503, poll_down, poll_503] idle_state)) = EvSleep 15 \<and>
   last (fst (worker_loop (replicate 13 poll_503) idle_state)) = EvSleep 60 \<and>
   iteration sample_env (idle_state\<lparr>errors := 3\<rparr>) =
     ([EvPoll, EvSleep 5], Continue idle_state) \<and>
   (\<exists>evs. iteration poll_job (idle_state\<lparr>errors := 3\<rparr>) = (evs, Continue idle_state)) \<and>
   iteration (sample_env\<lparr>now_hhmm := \<lambda>tz. ''20:00''\<rparr>)
     \<lparr>settings = PDict [(''schedule'', sample_schedule)], settings_version = PInt 1, errors = 3\<rparr> =
     ([EvSleep 5],
      Continue \<lparr>settings = PDict [(''schedule'', sample_schedule)], settings_version = PInt 1,
                errors = 3\<rparr>)"
proof -
  let ?ens = "[poll_503, poll_down, poll_503]"
  let ?busy = "idle_state\<lparr>errors := 3\<rparr>"
  let ?late = "sample_env\<lparr>now_hhmm := \<lambda>tz. ''20:00''\<rparr>"
  let ?gated = "\<lparr>settings = PDict [(''schedule'', sample_schedule)], settings_version = PInt 1,
                 errors = 3\<rparr>"
  have tf: "transient_failure idle_state poll_503" "transient_failure idle_state poll_down"
    by (simp_all add: transient_failure_def gate_closed_def idle_state_def poll_503_def
        poll_down_def sample_env_def is_Exception_def)
  then have all3: "list_all (transient_failure idle_state) ?ens"
    and all13: "list_all (transient_failure idle_state) (replicate 13 poll_503)"
    by (simp_all add: list_all_iff)
  from backoff_policy [of ?ens idle_state] all3
  obtain evs3 where
    "worker_loop ?ens idle_state =
       (evs3 @ [EvSleep (min (POLL_INTERVAL * (errors idle_state + length ?ens)) 60)],
        Continue (idle_state\<lparr>errors := errors idle_state + length ?ens\<rparr>))"
    by blast
  then have a: "snd (worker_loop ?ens idle_state) = Continue (idle_state\<lparr>errors := 3\<rparr>)"
    and b: "last (fst (worker_loop ?ens idle_state)) = EvSleep 15"
    by (simp_all add: idle_state_def POLL_INTERVAL_def)
  have "replicate 13 poll_503 \<noteq> []"
    by simp
  with backoff_policy [of "replicate 13 poll_503" idle_state] all13
  obtain evs13 where
    "worker_loop (replicate 13 poll_503) idle_state =
       (evs13 @ [EvSleep (min (POLL_INTERVAL * (errors idle_state + length (replicate 13 poll_503))) 60)],
        Continue (idle_state\<lparr>errors := errors idle_state + length (replicate 13 poll_503)\<rparr>))"
    by blast
  then have c: "last (fst (worker_loop (replicate 13 poll_503) idle_state)) = EvSleep 60"
    by (simp add: idle_state_def POLL_INTERVAL_def)
  have gate: "gate_closed sample_env ?busy = Inr False" "gate_closed poll_job ?busy = Inr False"
    by (simp_all add: gate_closed_def idle_state_def)
  have ap: "after_poll sample_env ?busy (PDict []) = ([EvSleep 5], idle_state, Normal)"
    by (simp add: after_poll_def sync_settings_def dict_get_def sleep_signal_def idle_state_def
        sample_env_def POLL_INTERVAL_def)
  have "poll_response sample_env = Response 200 (Inr (PDict []))"
    by (simp add: sample_env_def)
  with backoff_policy [where st = ?busy and en = sample_env and data = "PDict []"
      and evs = "[EvSleep 5]" and st' = idle_state] gate ap
  have d: "iteration sample_env ?busy = ([EvPoll, EvSleep 5], Continue idle_state)"
    by simp
  let ?result = "PDict [(''result'',
             PDict [(''image'', PStr ''abc''), (''seed'', PInt 42),
                    (''inference_time'', PFloat (3 / 2))])]"
  let ?evs = "[EvLog (LogProcessing (PStr ''sdxl'') (PStr ''01234567'')),
       EvBackendPost
        (PDict
          [(''prompt'', PStr ''a cat''), (''negative_prompt'', PStr []),
           (''width'', PInt 1024), (''height'', PInt 1024),
           (''steps'', PInt 20), (''cfg_scale'', PFloat 7),
           (''seed'', PInt (- 1)), (''sample_method'', PStr ''euler_a'')]),
       EvLog (LogJobCompleted (3 / 2)),
       EvComplete (PStr ''0123456789abcdef'') ?result]"
  have apj: "after_poll poll_job ?busy (PDict [(''job'', sample_job)]) = (?evs, idle_state, Normal)"
    by (simp add: after_poll_def sync_settings_def dict_get_def idle_state_def poll_job_def
        sample_job_def sample_env_def process_job_def run_sdxl_def run_sdxl_try_def
        sdxl_result_def has_images_def py_eq_PStr2)
  have "poll_response poll_job = Response 200 (Inr (PDict [(''job'', sample_job)]))"
    by (simp add: poll_job_def)
  with backoff_policy [where st = ?busy and en = poll_job
      and data = "PDict [(''job'', sample_job)]" and evs = ?evs and st' = idle_state] gate apj
  have e: "\<exists>evs. iteration poll_job ?busy = (evs, Continue idle_state)"
    by simp
  have "is_within_schedule ?late sample_schedule = Inr False"
    by code_simp
  then have "gate_closed ?late ?gated = Inr True \<and> \<not> sleep_interrupt ?late"
    by (simp add: gate_closed_def dict_get_def sample_env_def)
  with backoff_policy [where st = ?gated and en = ?late]
  have f: "iteration ?late ?gated = ([EvSleep 5], Continue ?gated)"
    by (simp add: POLL_INTERVAL_def)
  from all3 a b c d e f show ?thesis
    by simp
qed

lemma sync_no_complete: "\<not> list_ex is_complete (fst (sync_settings en st data))"
  by (simp add: sync_settings_def split: sum.splits bool.splits option.splits)

lemma run_sdxl_no_complete: "\<not> list_ex is_complete (fst (run_sdxl en params))"
  by (simp add: run_sdxl_def run_sdxl_try_def split: sum.splits http_outcome.splits prod.splits)

lemma process_job_no_complete: "\<not> list_ex is_complete (fst (process_job en job))"
proof -
  obtain evs res where r: "run_sdxl en (case py_get job ''params'' (PDict []) of Inr p \<Rightarrow> p | Inl e \<Rightarrow> PNone) = (evs, res)"
    by (cases "run_sdxl en (case py_get job ''params'' (PDict []) of Inr p \<Rightarrow> p | Inl e \<Rightarrow> PNone)")
  with run_sdxl_no_complete [of en "case py_get job ''params'' (PDict []) of Inr p \<Rightarrow> p | Inl e \<Rightarrow> PNone"]
  have "\<not> list_ex is_complete evs"
    by simp
  with r show ?thesis
    by (simp add: process_job_def split: sum.splits bool.splits)
qed

lemma filter_no_complete: "\<not> list_ex is_complete evs \<Longrightarrow> filter is_complete evs = []"
  by (induction evs) auto

lemma after_poll_job:
  assumes "sync_settings en st data = (evs1, st1, None)"
    and "py_get data ''job'' PNone = Inr job" and "truthy job"
    and "process_job en job = (evs2, Inr result)"
    and "py_getitem job ''id'' = Inr job_id"
  shows "after_poll en st data =
     (evs1 @ evs2 @ [EvComplete job_id result], st1\<lparr>errors := 0\<rparr>,
      (case complete_response en of Raises e \<Rightarrow> Raise e | Response code body \<Rightarrow> Normal))"
  using assms by (simp add: after_poll_def)

lemma job_iteration_completes_once:
  assumes "gate_closed en st = Inr False"
    and "poll_response en = Response 200 (Inr data)"
    and "sync_settings en st data = (evs1, st1, None)"
    and "py_get data ''job'' PNone = Inr job" and "truthy job"
    and "process_job en job = (evs2, Inr result)"
    and "py_getitem job ''id'' = Inr job_id"
  shows "length (filter is_complete (fst (iteration en st))) = 1"
proof -
  from sync_no_complete [of en st data] assms(3) have f1: "filter is_complete evs1 = []"
    by (simp add: filter_no_complete)
  from process_job_no_complete [of en job] assms(6) have f2: "filter is_complete evs2 = []"
    by (simp add: filter_no_complete)
  from assms f1 f2 show ?thesis
    by (simp add: iteration_after_poll [OF assms(1,2) after_poll_job [OF assms(3-7)]]
        split: http_outcome.splits)
qed

text \<open>
  A completion call that raises is counted by the general handler: after the job of
  \<open>poll_job\<close> is processed and the completion call fails on the connection, the
  counter is 1 and the loop sleeps 5 seconds before it polls again.
\<close>

theorem completion_failure_counterexample:
  "iteration (poll_job\<lparr>complete_response := Raises (External OSError ''Connection reset by peer'')\<rparr>)
     \<lparr>settings = PNone, settings_version = PInt 0, errors = 0\<rparr> =
   ([EvPoll,
     EvLog (LogProcessing (PStr ''sdxl'') (PStr ''01234567'')),
     EvBackendPost
      (PDict
        [(''prompt'', PStr ''a cat''), (''negative_prompt'', PStr []),
         (''width'', PInt 1024), (''height'', PInt 1024),
         (''steps'', PInt 20), (''cfg_scale'', PFloat 7),
         (''seed'', PInt (- 1)), (''sample_method'', PStr ''euler_a'')]),
     EvLog (LogJobCompleted (3 / 2)),
     EvComplete (PStr ''0123456789abcdef'')
      (PDict [(''result'',
         PDict [(''image'', PStr ''abc''), (''seed'', PInt 42),
                (''inference_time'', PFloat (3 / 2))])]),
     EvLog (LogError (External OSError ''Connection reset by peer'')),
     EvSleep 5],
    Continue \<lparr>settings = PNone, settings_version = PInt 0, errors = 1\<rparr>)"
  by (simp add: iteration_def try_body_def gate_closed_def after_poll_def sync_settings_def
      dict_get_def poll_job_def sample_job_def sample_env_def process_job_def run_sdxl_def
      run_sdxl_try_def sdxl_result_def has_images_def py_eq_PStr2 POLL_INTERVAL_def)

text \<open>
  C2, as the loop has it. In an iteration that received and processed a job the
  completion call is made exactly once, and its failure does not end the loop. When the
  call returns a response, whatever its status, the counter stays 0 and the loop goes
  on to the next poll without sleeping. When the call raises, the counter becomes 1 and
  the loop sleeps \<open>POLL_INTERVAL\<close> seconds before the next poll.
\<close>

theorem completion_failure_handling:
  "gate_closed en st = Inr False \<and> poll_response en = Response 200 (Inr data) \<and>
   sync_settings en st data = (evs1, st1, None) \<and>
   py_get data ''job'' PNone = Inr job \<and> truthy job \<and>
   process_job en job = (evs2, Inr result) \<and> py_getitem job ''id'' = Inr job_id \<longrightarrow>
     (complete_response en = Response code body \<longrightarrow>
        iteration en st =
          (EvPoll # evs1 @ evs2 @ [EvComplete job_id result], Continue (st1\<lparr>errors := 0\<rparr>))) \<and>
     (complete_response en = Raises e \<and> is_Exception e \<and> \<not> sleep_interrupt en \<longrightarrow>
        iteration en st =
          (EvPoll # evs1 @ evs2 @
             [EvComplete job_id result, EvLog (LogError e), EvSleep POLL_INTERVAL],
           Continue (st1\<lparr>errors := 1\<rparr>))) \<and>
     length (filter is_complete (fst (iteration en st))) = 1"
proof (intro impI conjI)
  assume a: "gate_closed en st = Inr False \<and> poll_response en = Response 200 (Inr data) \<and>
   sync_settings en st data = (evs1, st1, None) \<and>
   py_get data ''job'' PNone = Inr job \<and> truthy job \<and>
   process_job en job = (evs2, Inr result) \<and> py_getitem job ''id'' = Inr job_id"
  then have ap: "after_poll en st data =
     (evs1 @ evs2 @ [EvComplete job_id result], st1\<lparr>errors := 0\<rparr>,
      (case complete_response en of Raises e \<Rightarrow> Raise e | Response code body \<Rightarrow> Normal))"
    by (simp add: after_poll_job)
  from a have g: "gate_closed en st = Inr False" "poll_response en = Response 200 (Inr data)"
    by simp_all
  note it = iteration_after_poll [OF g ap]
  from a show "length (filter is_complete (fst (iteration en st))) = 1"
    by (simp add: job_iteration_completes_once)
  {
    assume "complete_response en = Response code body"
    with it show "iteration en st =
          (EvPoll # evs1 @ evs2 @ [EvComplete job_id result], Continue (st1\<lparr>errors := 0\<rparr>))"
      by simp
  }
  {
    assume "complete_response en = Raises e \<and> is_Exception e \<and> \<not> sleep_interrupt en"
    with it show "iteration en st =
          (EvPoll # evs1 @ evs2 @
             [EvComplete job_id result, EvLog (LogError e), EvSleep POLL_INTERVAL],
           Continue (st1\<lparr>errors := 1\<rparr>))"
      by (simp add: is_Exception_def POLL_INTERVAL_def)
  }
qed

text \<open>The completion endpoint answers 500, then resets the connection.\<close>

theorem completion_failure_handling_witness:
  "iteration (poll_job\<lparr>complete_response := Response 500 (Inl (External ValueError ''no JSON''))\<rparr>)
       idle_state =
     ([EvPoll,
       EvLog (LogProcessing (PStr ''sdxl'') (PStr ''01234567'')),
       EvBackendPost
        (PDict
          [(''prompt'', PStr ''a cat''), (''negative_prompt'', PStr []),
           (''width'', PInt 1024), (''height'', PInt 1024),
           (''steps'', PInt 20), (''cfg_scale'', PFloat 7),
           (''seed'', PInt (- 1)), (''sample_method'', PStr ''euler_a'')]),
       EvLog (LogJobCompleted (3 / 2)),
       EvComplete (PStr ''0123456789abcdef'')
        (PDict [(''result'',
           PDict [(''image'', PStr ''abc''), (''seed'', PInt 42),
                  (''inference_time'', PFloat (3 / 2))])])],
      Continue idle_state) \<and>
   snd (iteration (poll_job\<lparr>complete_response := Raises (External OSError ''Connection reset by peer'')\<rparr>)
          idle_state) = Continue (idle_state\<lparr>errors := 1\<rparr>) \<and>
   last (fst (iteration (poll_job\<lparr>complete_response := Raises (External OSError ''Connection reset by peer'')\<rparr>)
          idle_state)) = EvSleep 5 \<and>
   length (filter is_complete
     (fst (iteration (poll_job\<lparr>complete_response := Raises (External OSError ''Connection reset by peer'')\<rparr>)
          idle_state))) = 1"
proof -
  let ?e500 = "poll_job\<lparr>complete_response := Response 500 (Inl (External ValueError ''no JSON''))\<rparr>"
  let ?exc = "External OSError ''Connection reset by peer''"
  let ?eraise = "poll_job\<lparr>complete_response := Raises ?exc\<rparr>"
  let ?data = "PDict [(''job'', sample_job)]"
  let ?result = "PDict [(''result'',
           PDict [(''image'', PStr ''abc''), (''seed'', PInt 42),
                  (''inference_time'', PFloat (3 / 2))])]"
  let ?evs2 = "[EvLog (LogProcessing (PStr ''sdxl'') (PStr ''01234567'')),
       EvBackendPost
        (PDict
          [(''prompt'', PStr ''a cat''), (''negative_prompt'', PStr []),
           (''width'', PInt 1024), (''height'', PInt 1024),
           (''steps'', PInt 20), (''cfg_scale'', PFloat 7),
           (''seed'', PInt (- 1)), (''sample_method'', PStr ''euler_a'')]),
       EvLog (LogJobCompleted (3 / 2))]"
  have hyp: "gate_closed en idle_state = Inr False"
    "sync_settings en idle_state ?data = ([], idle_state, None)"
    "py_get ?data ''job'' PNone = Inr sample_job" "truthy sample_job"
    "py_getitem sample_job ''id'' = Inr (PStr ''0123456789abcdef'')" for en
    by (simp_all add: gate_closed_def idle_state_def sync_settings_def dict_get_def sample_job_def)
  have pj: "process_job ?e500 sample_job = (?evs2, Inr ?result)"
           "process_job ?eraise sample_job = (?evs2, Inr ?result)"
    by (simp_all add: poll_job_def sample_job_def sample_env_def process_job_def run_sdxl_def
        run_sdxl_try_def sdxl_result_def has_images_def dict_get_def py_eq_PStr2)
  have env: "poll_response ?e500 = Response 200 (Inr ?data)"
    "poll_response ?eraise = Response 200 (Inr ?data)"
    "complete_response ?e500 = Response 500 (Inl (External ValueError ''no JSON''))"
    "complete_response ?eraise = Raises ?exc" "is_Exception ?exc" "\<not> sleep_interrupt ?eraise"
    by (simp_all add: poll_job_def sample_env_def is_Exception_def)
  from completion_failure_handling
    [where en = ?e500 and st = idle_state and data = ?data and ?evs1.0 = "[]"
       and ?st1.0 = idle_state and job = sample_job and ?evs2.0 = ?evs2 and result = ?result
       and job_id = "PStr ''0123456789abcdef''" and code = 500
       and body = "Inl (External ValueError ''no JSON'')"]
    hyp pj env
  have a: "iteration ?e500 idle_state =
      (EvPoll # ?evs2 @ [EvComplete (PStr ''0123456789abcdef'') ?result], Continue idle_state)"
    by (simp add: idle_state_def)
  from completion_failure_handling
    [where en = ?eraise and st = idle_state and data = ?data and ?evs1.0 = "[]"
       and ?st1.0 = idle_state and job = sample_job and ?evs2.0 = ?evs2 and result = ?result
       and job_id = "PStr ''0123456789abcdef''" and e = ?exc]
    hyp pj env
  have b: "iteration ?eraise idle_state =
          (EvPoll # [] @ ?evs2 @
             [EvComplete (PStr ''0123456789abcdef'') ?result, EvLog (LogError ?exc),
              EvSleep POLL_INTERVAL],
           Continue (idle_state\<lparr>errors := 1\<rparr>)) \<and>
     length (filter is_complete (fst (iteration ?eraise idle_state))) = 1"
    by simp
  from a b show ?thesis
    by (simp add: POLL_INTERVAL_def)
qed

lemma sync_settings_int:
  assumes "map_of d ''config_sync'' = Some (PDict cs)" and "cs \<noteq> []"
    and "dict_get cs ''settings_version'' (PInt 0) = PInt v"
    and "settings_version st = PInt cur"
  shows "sync_settings en st (PDict d) =
     (if v \<le> cur then ([], st, None)
      else if \<not> truthy (dict_get cs ''settings'' PNone)
      then ([], st\<lparr>settings := dict_get cs ''settings'' PNone\<rparr>, None)
      else
        (case save_outcome en of
           Some e \<Rightarrow>
             ([EvSave (dict_get cs ''settings'' PNone)],
              st\<lparr>settings := dict_get cs ''settings'' PNone\<rparr>, Some e)
         | None \<Rightarrow>
             ([EvSave (dict_get cs ''settings'' PNone), EvLog (LogSynced (PInt v))],
              st\<lparr>settings := dict_get cs ''settings'' PNone, settings_version := PInt v\<rparr>,
              None)))"
  using assms by (simp add: sync_settings_def dict_get_def split: option.splits)

text \<open>
  A newer version is not always adopted: the payload has version 2 against a held
  version 1, but its settings are empty. Nothing is saved and the held version stays 1
  (the in-memory settings are replaced by the empty dict all the same).
\<close>

theorem settings_sync_counterexample:
  "iteration
     (sample_env\<lparr>poll_response :=
        Response 200 (Inr (PDict [(''config_sync'',
          PDict [(''settings_version'', PInt 2), (''settings'', PDict [])])]))\<rparr>)
     \<lparr>settings = PDict [(''settings_version'', PInt 1)], settings_version = PInt 1, errors = 0\<rparr> =
   ([EvPoll, EvSleep 5],
    Continue \<lparr>settings = PDict [], settings_version = PInt 1, errors = 0\<rparr>)"
  by (simp add: iteration_def try_body_def gate_closed_def is_within_schedule_def after_poll_def
      sync_settings_def dict_get_def sample_env_def sleep_signal_def POLL_INTERVAL_def)

text \<open>
  C1, as the loop has it. For a poll response with a \<^verbatim>\<open>config_sync\<close> payload and
  integer versions: an incoming version less than or equal to the held one changes
  nothing. A strictly greater version whose payload has non-empty settings replaces the
  in-memory settings by them, saves them and, the save having returned, makes the
  incoming version the held one, against which later payloads are compared. A strictly
  greater version whose payload has no settings or empty ones saves nothing and leaves
  the held version as it is.
\<close>

theorem settings_sync_versions:
  "map_of d ''config_sync'' = Some (PDict cs) \<and> cs \<noteq> [] \<and>
   dict_get cs ''settings_version'' (PInt 0) = PInt v \<and> settings_version st = PInt cur \<longrightarrow>
     (v \<le> cur \<longrightarrow> sync_settings en st (PDict d) = ([], st, None)) \<and>
     (cur < v \<and> truthy (dict_get cs ''settings'' PNone) \<and> save_outcome en = None \<longrightarrow>
        sync_settings en st (PDict d) =
          ([EvSave (dict_get cs ''settings'' PNone), EvLog (LogSynced (PInt v))],
           st\<lparr>settings := dict_get cs ''settings'' PNone, settings_version := PInt v\<rparr>,
           None) \<and>
        (map_of d' ''config_sync'' = Some (PDict cs') \<and> cs' \<noteq> [] \<and>
         dict_get cs' ''settings_version'' (PInt 0) = PInt w \<and> w \<le> v \<longrightarrow>
           sync_settings en' (st\<lparr>settings := dict_get cs ''settings'' PNone,
                                   settings_version := PInt v\<rparr>) (PDict d') =
             ([], st\<lparr>settings := dict_get cs ''settings'' PNone, settings_version := PInt v\<rparr>,
              None))) \<and>
     (cur < v \<and> \<not> truthy (dict_get cs ''settings'' PNone) \<longrightarrow>
        fst (sync_settings en st (PDict d)) = [] \<and>
        settings_version (fst (snd (sync_settings en st (PDict d)))) = PInt cur)"
proof (intro impI conjI)
  assume a: "map_of d ''config_sync'' = Some (PDict cs) \<and> cs \<noteq> [] \<and>
   dict_get cs ''settings_version'' (PInt 0) = PInt v \<and> settings_version st = PInt cur"
  then have eq: "sync_settings en st (PDict d) =
     (if v \<le> cur then ([], st, None)
      else if \<not> truthy (dict_get cs ''settings'' PNone)
      then ([], st\<lparr>settings := dict_get cs ''settings'' PNone\<rparr>, None)
      else
        (case save_outcome en of
           Some e \<Rightarrow>
             ([EvSave (dict_get cs ''settings'' PNone)],
              st\<lparr>settings := dict_get cs ''settings'' PNone\<rparr>, Some e)
         | None \<Rightarrow>
             ([EvSave (dict_get cs ''settings'' PNone), EvLog (LogSynced (PInt v))],
              st\<lparr>settings := dict_get cs ''settings'' PNone, settings_version := PInt v\<rparr>,
              None)))"
    by (simp add: sync_settings_int)
  {
    assume "v \<le> cur"
    with eq show "sync_settings en st (PDict d) = ([], st, None)"
      by simp
  }
  {
    assume b: "cur < v \<and> truthy (dict_get cs ''settings'' PNone) \<and> save_outcome en = None"
    with eq show "sync_settings en st (PDict d) =
          ([EvSave (dict_get cs ''settings'' PNone), EvLog (LogSynced (PInt v))],
           st\<lparr>settings := dict_get cs ''settings'' PNone, settings_version := PInt v\<rparr>,
           None)"
      by simp
    assume "map_of d' ''config_sync'' = Some (PDict cs') \<and> cs' \<noteq> [] \<and>
         dict_get cs' ''settings_version'' (PInt 0) = PInt w \<and> w \<le> v"
    then show "sync_settings en' (st\<lparr>settings := dict_get cs ''settings'' PNone,
                                   settings_version := PInt v\<rparr>) (PDict d') =
             ([], st\<lparr>settings := dict_get cs ''settings'' PNone, settings_version := PInt v\<rparr>,
              None)"
      by (simp add: sync_settings_int [where cur = v])
  }
  {
    assume c: "cur < v \<and> \<not> truthy (dict_get cs ''settings'' PNone)"
    with eq show "fst (sync_settings en st (PDict d)) = []"
      by simp
    from c eq a
    show "settings_version (fst (snd (sync_settings en st (PDict d)))) = PInt cur"
      by simp
  }
qed

text \<open>
  Version 2 arrives at a worker holding version 1, then again at the worker that adopted
  it, then at a worker holding version 3; last, version 2 with empty settings.
\<close>

theorem settings_sync_versions_witness:
  "sync_settings sample_env \<lparr>settings = PNone, settings_version = PInt 1, errors = 0\<rparr>
     (PDict [(''config_sync'', PDict [(''settings_version'', PInt 2),
        (''settings'', PDict [(''settings_version'', PInt 2)])])]) =
     ([EvSave (PDict [(''settings_version'', PInt 2)]), EvLog (LogSynced (PInt 2))],
      \<lparr>settings = PDict [(''settings_version'', PInt 2)], settings_version = PInt 2, errors = 0\<rparr>,
      None) \<and>
   sync_settings sample_env
     \<lparr>settings = PDict [(''settings_version'', PInt 2)], settings_version = PInt 2, errors = 0\<rparr>
     (PDict [(''config_sync'', PDict [(''settings_version'', PInt 2),
        (''settings'', PDict [(''settings_version'', PInt 2)])])]) =
     ([], \<lparr>settings = PDict [(''settings_version'', PInt 2)], settings_version = PInt 2,
            errors = 0\<rparr>, None) \<and>
   sync_settings sample_env \<lparr>settings = PNone, settings_version = PInt 3, errors = 0\<rparr>
     (PDict [(''config_sync'', PDict [(''settings_version'', PInt 2),
        (''settings'', PDict [(''settings_version'', PInt 2)])])]) =
     ([], \<lparr>settings = PNone, settings_version = PInt 3, errors = 0\<rparr>, None) \<and>
   fst (sync_settings sample_env \<lparr>settings = PNone, settings_version = PInt 1, errors = 0\<rparr>
     (PDict [(''config_sync'', PDict [(''settings_version'', PInt 2), (''settings'', PDict [])])]))
     = []"
proof -
  let ?s = "PDict [(''settings_version'', PInt 2)]"
  let ?cs = "[(''settings_version'', PInt 2), (''settings'', ?s)]"
  let ?d = "[(''config_sync'', PDict ?cs)]"
  let ?cse = "[(''settings_version'', PInt 2), (''settings'', PDict [])]"
  let ?de = "[(''config_sync'', PDict ?cse)]"
  let ?sta = "\<lparr>settings = PNone, settings_version = PInt 1, errors = 0\<rparr>"
  let ?stc = "\<lparr>settings = PNone, settings_version = PInt 3, errors = 0\<rparr>"
  have h: "map_of ?d ''config_sync'' = Some (PDict ?cs) \<and> ?cs \<noteq> [] \<and>
           dict_get ?cs ''settings_version'' (PInt 0) = PInt 2"
          "map_of ?de ''config_sync'' = Some (PDict ?cse) \<and> ?cse \<noteq> [] \<and>
           dict_get ?cse ''settings_version'' (PInt 0) = PInt 2"
          "dict_get ?cs ''settings'' PNone = ?s" "dict_get ?cse ''settings'' PNone = PDict []"
          "save_outcome sample_env = None"
    by (simp_all add: dict_get_def sample_env_def)
  from settings_sync_versions
    [where d = ?d and cs = ?cs and v = 2 and st = ?sta and cur = 1 and en = sample_env
       and d' = ?d and cs' = ?cs and w = 2 and en' = sample_env] h
  have a: "sync_settings sample_env ?sta (PDict ?d) =
      ([EvSave ?s, EvLog (LogSynced (PInt 2))],
       \<lparr>settings = ?s, settings_version = PInt 2, errors = 0\<rparr>, None) \<and>
     sync_settings sample_env \<lparr>settings = ?s, settings_version = PInt 2, errors = 0\<rparr> (PDict ?d) =
      ([], \<lparr>settings = ?s, settings_version = PInt 2, errors = 0\<rparr>, None)"
    by simp
  from settings_sync_versions
    [where d = ?d and cs = ?cs and v = 2 and st = ?stc and cur = 3 and en = sample_env] h
  have b: "sync_settings sample_env ?stc (PDict ?d) = ([], ?stc, None)"
    by simp
  from settings_sync_versions
    [where d = ?de and cs = ?cse and v = 2 and st = ?sta and cur = 1 and en = sample_env] h
  have c: "fst (sync_settings sample_env ?sta (PDict ?de)) = []"
    by simp
  from a b c show ?thesis
    by simp
qed

end
